theory Spec2Isabelle
  imports Complex_Main "HOL-Library.Multiset" "HOL-Library.List_Lexorder" "HOL-Library.Char_ord"
begin

section \<open>The persistent store (schema.sql)\<close>

text \<open>
  The store is the SQLite database that \<^verbatim>\<open>schema.sql\<close> creates and the \<^verbatim>\<open>Database\<close>
  class reads and writes. A table is the list of its rows in rowid order, a nullable
  column is an \<open>option\<close>, and an \<^verbatim>\<open>INTEGER PRIMARY KEY AUTOINCREMENT\<close> column takes its
  value from a counter of the table that only grows.

  How the values are modelled:
  \<^item> a number is the rational it stands for; a \<^verbatim>\<open>REAL\<close> is an IEEE double, so what the
    engine computes from it (\<^verbatim>\<open>AVG\<close>, the arithmetic of the trigger) is rounded, and is
    taken from the engine, see below;
  \<^item> a time the server sets (\<^verbatim>\<open>CURRENT_TIMESTAMP\<close>) is the second of the server's clock,
    which the column holds as the text \<^verbatim>\<open>YYYY-MM-DD HH:MM:SS\<close>; a time the client sends
    is the JSON value it sent, a text or a number;
  \<^item> the columns \<^verbatim>\<open>created_at\<close>, \<^verbatim>\<open>updated_at\<close> and \<^verbatim>\<open>avatar_url\<close> of \<^verbatim>\<open>users\<close>, and the
    tables \<^verbatim>\<open>images\<close>, \<^verbatim>\<open>analytics\<close>, \<^verbatim>\<open>user_settings\<close> and \<^verbatim>\<open>api_usage\<close>, which no route
    handler writes, are left out;
  \<^item> the connection is opened without \<^verbatim>\<open>PRAGMA foreign_keys = ON\<close>, so the foreign-key
    clauses of the schema are not enforced and a delete does not cascade.
\<close>

text \<open>
  A date the client sends. \<open>Text\<close> is a text that does not spell a number: the column
  has numeric affinity and keeps a text that spells a number as that number.
\<close>

datatype datetime = Text string | Number rat

text \<open>
  What the store takes from the SQLite library: \<^verbatim>\<open>AVG\<close> of the values of a group, in the
  order of the scan, and the value of
  \<^verbatim>\<open>(julianday(NEW.end_time) - julianday(NEW.start_time)) * 86400\<close> for a start time the
  server has set and an end time, null when the end time is not read as a date. Both
  are computed in doubles, and how (the order and the compensation of a sum, the parsing
  of a date) is the library's: they are parameters of the model.
\<close>

record engine =
  sql_avg :: "rat list \<Rightarrow> rat"
  sql_duration :: "int \<Rightarrow> datetime \<Rightarrow> rat option"

record user =
  u_id :: int
  username :: string
  email :: string
  password_hash :: string
  full_name :: "string option"
  is_active :: bool
  last_login :: "int option"

record session =
  s_id :: int
  user_id :: "int option"
  session_name :: "string option"
  start_time :: int
  end_time :: "datetime option"
  duration_seconds :: "rat option"
  total_detections :: "int option"
  accuracy_score :: "rat option"
  device_info :: "string option"
  ip_address :: "string option"
  location :: "string option"
  is_completed :: bool

record emotion =
  e_id :: int
  session_id :: int
  emotion_type :: string
  confidence_score :: rat
  timestamp :: int
  face_coordinates :: "string option"
  age_estimate :: "int option"
  gender_estimate :: "string option"
  image_id :: "int option"
  processing_time_ms :: "int option"
  raw_data :: "string option"

text \<open>A row of the table \<^verbatim>\<open>emotion_summaries\<close>, which the schema declares.\<close>

record emotion_summary =
  es_id :: int
  es_user_id :: "int option"
  es_session_id :: "int option"
  es_emotion_type :: string
  es_count :: int
  average_confidence :: "rat option"
  first_detected :: "int option"
  last_detected :: "int option"
  percentage_of_total :: "rat option"

record db =
  engine :: engine
  users :: "user list"
  sessions :: "session list"
  emotions :: "emotion list"
  emotion_summaries :: "emotion_summary list"
  next_user_id :: int
  next_session_id :: int
  next_emotion_id :: int

text \<open>The database right after \<^verbatim>\<open>Database.initialize\<close> on a new file.\<close>

definition initial_db :: "engine \<Rightarrow> db" where
  "initial_db E =
     \<lparr>engine = E, users = [], sessions = [], emotions = [], emotion_summaries = [],
      next_user_id = 1, next_session_id = 1, next_emotion_id = 1\<rparr>"

section \<open>Errors and responses\<close>

text \<open>
  A handler answers with a status and a JSON body. The failures are the spec's taxonomy:
  400 is \<open>ValidationError\<close>, 404 \<open>NotFound\<close>, 409 \<open>Conflict\<close>, 401 \<open>Unauthorized\<close>, 500
  \<open>Internal\<close>. A validation error carries the key and the rule of the schema that
  \<^verbatim>\<open>error.details[0]\<close> reports; the others carry the \<^verbatim>\<open>error\<close> string of the body.
\<close>

datatype constraint =
  AnyRequired | AnyOnly
  | NumberUnsafe | NumberInteger | NumberMin | NumberMax
  | StringEmpty | StringAlphanum | StringEmail | StringMin | StringMax

type_synonym violation = "string \<times> constraint"

datatype error =
  ValidationError violation
  | NotFound string
  | Conflict string
  | Unauthorized string
  | Internal string

fun status_code :: "error \<Rightarrow> nat" where
  "status_code (ValidationError _) = 400"
| "status_code (NotFound _) = 404"
| "status_code (Conflict _) = 409"
| "status_code (Unauthorized _) = 401"
| "status_code (Internal _) = 500"

section \<open>The summary query (Database.getEmotionSummary)\<close>

text \<open>
  \<^verbatim>\<open>SELECT emotion_type, COUNT(*) as count, AVG(confidence_score) as avg_confidence,
         MIN(timestamp) as first_detection, MAX(timestamp) as last_detection
  FROM emotions WHERE session_id = ? GROUP BY emotion_type ORDER BY count DESC\<close>

  The engine scans the rows of the session and keeps one accumulator per group: the
  number of rows, the confidences met so far, the least and the greatest timestamp.
  When the scan ends, \<^verbatim>\<open>AVG\<close> is the engine's average of the confidences of the group.
\<close>

record acc =
  a_type :: string
  a_count :: nat
  a_values :: "rat list"
  a_min :: int
  a_max :: int

record summary_row =
  r_emotion_type :: string
  r_count :: nat
  avg_confidence :: rat
  first_detection :: int
  last_detection :: int

definition acc_new :: "emotion \<Rightarrow> acc" where
  "acc_new e =
     \<lparr>a_type = emotion_type e, a_count = 1, a_values = [confidence_score e],
      a_min = timestamp e, a_max = timestamp e\<rparr>"

definition acc_add :: "emotion \<Rightarrow> acc \<Rightarrow> acc" where
  "acc_add e a =
     a\<lparr>a_count := a_count a + 1, a_values := a_values a @ [confidence_score e],
       a_min := min (a_min a) (timestamp e), a_max := max (a_max a) (timestamp e)\<rparr>"

fun agg_step :: "emotion \<Rightarrow> acc list \<Rightarrow> acc list" where
  "agg_step e [] = [acc_new e]"
| "agg_step e (a # as) =
     (if a_type a = emotion_type e then acc_add e a # as else a # agg_step e as)"

fun aggregate :: "emotion list \<Rightarrow> acc list \<Rightarrow> acc list" where
  "aggregate [] gs = gs"
| "aggregate (e # es) gs = aggregate es (agg_step e gs)"

definition acc_final :: "(rat list \<Rightarrow> rat) \<Rightarrow> acc \<Rightarrow> summary_row" where
  "acc_final avg a =
     \<lparr>r_emotion_type = a_type a, r_count = a_count a,
      avg_confidence = avg (a_values a),
      first_detection = a_min a, last_detection = a_max a\<rparr>"

definition session_emotions :: "db \<Rightarrow> int \<Rightarrow> emotion list" where
  "session_emotions d sid = filter (\<lambda>e. session_id e = sid) (emotions d)"

definition group_by_emotion_type ::
  "(rat list \<Rightarrow> rat) \<Rightarrow> emotion list \<Rightarrow> summary_row list" where
  "group_by_emotion_type avg es = map (acc_final avg) (aggregate es [])"

text \<open>
  \<^verbatim>\<open>ORDER BY count DESC\<close> names one sort key. SQL leaves the order of rows with equal keys
  to the engine, so the query is a relation between the groups and the answers it may
  give: an answer is the groups, each once, in an order in which the counts never grow.
\<close>

definition order_by_count_desc :: "summary_row list \<Rightarrow> summary_row list \<Rightarrow> bool" where
  "order_by_count_desc groups rows \<longleftrightarrow>
     mset rows = mset groups \<and> sorted_wrt (\<lambda>a b. r_count b \<le> r_count a) rows"

definition getEmotionSummary :: "db \<Rightarrow> int \<Rightarrow> summary_row list \<Rightarrow> bool" where
  "getEmotionSummary d sid rows \<longleftrightarrow>
     order_by_count_desc
       (group_by_emotion_type (sql_avg (engine d)) (session_emotions d sid)) rows"

text \<open>One answer the query may give: the groups sorted by a stable sort on the count.\<close>

definition summary_sorted :: "db \<Rightarrow> int \<Rightarrow> summary_row list" where
  "summary_sorted d sid =
     rev (sort_key r_count
       (group_by_emotion_type (sql_avg (engine d)) (session_emotions d sid)))"

text \<open>
  What the spec calls the aggregate of the stored observations: for a label, the number
  of the rows with that label, the engine's average of their confidences, and their
  least and greatest timestamps. \<open>agg_of\<close> is the same with the confidences in place of
  their average: the accumulator a scan of the rows must end with. \<open>mean\<close> is the
  arithmetic mean, with no rounding.
\<close>

definition agg_of :: "emotion list \<Rightarrow> string \<Rightarrow> acc" where
  "agg_of es l =
     (let g = filter (\<lambda>e. emotion_type e = l) es in
      \<lparr>a_type = l, a_count = length g, a_values = map confidence_score g,
       a_min = Min (set (map timestamp g)), a_max = Max (set (map timestamp g))\<rparr>)"

definition mean :: "rat list \<Rightarrow> rat" where
  "mean xs = sum_list xs / of_nat (length xs)"

definition aggregate_row ::
  "(rat list \<Rightarrow> rat) \<Rightarrow> emotion list \<Rightarrow> string \<Rightarrow> summary_row" where
  "aggregate_row avg es l =
     (let g = filter (\<lambda>e. emotion_type e = l) es in
      \<lparr>r_emotion_type = l, r_count = length g,
       avg_confidence = avg (map confidence_score g),
       first_detection = Min (set (map timestamp g)),
       last_detection = Max (set (map timestamp g))\<rparr>)"

definition acc_lookup :: "acc list \<Rightarrow> string \<Rightarrow> acc option" where
  "acc_lookup gs l = find (\<lambda>a. a_type a = l) gs"

definition represents :: "acc list \<Rightarrow> emotion list \<Rightarrow> bool" where
  "represents gs seen \<longleftrightarrow>
     distinct (map a_type gs) \<and>
     (\<forall>l. acc_lookup gs l =
        (if l \<in> set (map emotion_type seen) then Some (agg_of seen l) else None))"

definition label_confidences :: "db \<Rightarrow> int \<Rightarrow> string \<Rightarrow> rat list" where
  "label_confidences d sid l =
     map confidence_score (filter (\<lambda>e. emotion_type e = l) (session_emotions d sid))"

definition summary_find :: "summary_row list \<Rightarrow> string \<Rightarrow> summary_row option" where
  "summary_find rows l = find (\<lambda>r. r_emotion_type r = l) rows"

definition summary_count :: "summary_row list \<Rightarrow> string \<Rightarrow> nat" where
  "summary_count rows l = (case summary_find rows l of None \<Rightarrow> 0 | Some r \<Rightarrow> r_count r)"

text \<open>The order the spec asks of \<open>summarize\<close>: count descending, then label ascending.\<close>

definition count_desc_label_asc :: "summary_row list \<Rightarrow> bool" where
  "count_desc_label_asc rows \<longleftrightarrow>
     sorted_wrt (\<lambda>a b. r_count b < r_count a \<or>
                        (r_count a = r_count b \<and> r_emotion_type a \<le> r_emotion_type b)) rows"

section \<open>Request validation (the Joi schemas)\<close>

text \<open>
  A body is a record of its keys, a key that is absent is \<open>None\<close>. The keys have the
  types the schema gives them (a number is a rational, a string a string, an object its
  JSON text), so a value of the wrong type and a key the schema does not know are
  outside the model. Joi checks the keys in the order of the schema and the rules of a
  key in the order they are chained, and stops at the first rule that fails
  (\<^verbatim>\<open>abortEarly\<close>); a string is refused when empty, and a number when it is beyond the safe
  integers (above \<open>2^53 - 1\<close> in absolute value), before its rules are run; a key with
  \<^verbatim>\<open>valid(...)\<close> accepts exactly the values listed.
\<close>

type_synonym 'a rule = "'a \<Rightarrow> constraint option"

fun first_failed :: "'a rule list \<Rightarrow> 'a \<Rightarrow> constraint option" where
  "first_failed [] v = None"
| "first_failed (r # rs) v = (case r v of Some c \<Rightarrow> Some c | None \<Rightarrow> first_failed rs v)"

definition required :: "string \<Rightarrow> 'a rule list \<Rightarrow> 'a option \<Rightarrow> violation option" where
  "required key rules x =
     (case x of None \<Rightarrow> Some (key, AnyRequired)
      | Some v \<Rightarrow> map_option (Pair key) (first_failed rules v))"

definition optional :: "string \<Rightarrow> 'a rule list \<Rightarrow> 'a option \<Rightarrow> violation option" where
  "optional key rules x =
     (case x of None \<Rightarrow> None | Some v \<Rightarrow> map_option (Pair key) (first_failed rules v))"

fun first_error :: "violation option list \<Rightarrow> violation option" where
  "first_error [] = None"
| "first_error (Some v # xs) = Some v"
| "first_error (None # xs) = first_error xs"

definition is_integer :: "rat \<Rightarrow> bool" where
  "is_integer v \<longleftrightarrow> of_int \<lfloor>v\<rfloor> = v"

definition is_unsafe :: "rat \<Rightarrow> bool" where
  "is_unsafe v \<longleftrightarrow> v < - 9007199254740991 \<or> 9007199254740991 < v"

definition number_base :: "rat rule" where
  "number_base v = (if is_unsafe v then Some NumberUnsafe else None)"

definition number_integer :: "rat rule" where
  "number_integer v = (if is_integer v then None else Some NumberInteger)"

definition number_min :: "rat \<Rightarrow> rat rule" where
  "number_min m v = (if v < m then Some NumberMin else None)"

definition number_max :: "rat \<Rightarrow> rat rule" where
  "number_max m v = (if m < v then Some NumberMax else None)"

definition any_only :: "string list \<Rightarrow> string rule" where
  "any_only allowed v = (if v \<in> set allowed then None else Some AnyOnly)"

definition string_base :: "string rule" where
  "string_base v = (if v = [] then Some StringEmpty else None)"

definition is_alphanum :: "char \<Rightarrow> bool" where
  "is_alphanum c \<longleftrightarrow>
     (CHR ''a'' \<le> c \<and> c \<le> CHR ''z'') \<or> (CHR ''A'' \<le> c \<and> c \<le> CHR ''Z'') \<or>
     (CHR ''0'' \<le> c \<and> c \<le> CHR ''9'')"

definition string_alphanum :: "string rule" where
  "string_alphanum v = (if list_all is_alphanum v then None else Some StringAlphanum)"

definition string_min :: "nat \<Rightarrow> string rule" where
  "string_min n v = (if length v < n then Some StringMin else None)"

definition string_max :: "nat \<Rightarrow> string rule" where
  "string_max n v = (if n < length v then Some StringMax else None)"

definition string_email :: "(string \<Rightarrow> bool) \<Rightarrow> string rule" where
  "string_email ok v = (if ok v then None else Some StringEmail)"

subsection \<open>emotionSchema\<close>

record emotion_body =
  sessionId :: "rat option"
  emotionType :: "string option"
  confidenceScore :: "rat option"
  faceCoordinates :: "string option"
  ageEstimate :: "rat option"
  genderEstimate :: "string option"
  imageId :: "rat option"
  processingTimeMs :: "rat option"
  rawData :: "string option"

definition emotion_labels :: "string list" where
  "emotion_labels =
     [''happy'', ''sad'', ''angry'', ''surprised'', ''fearful'', ''disgusted'', ''neutral'']"

definition gender_labels :: "string list" where
  "gender_labels = [''male'', ''female'']"

definition emotionSchema :: "emotion_body \<Rightarrow> violation option" where
  "emotionSchema b = first_error
     [required ''sessionId'' [number_base, number_integer] (sessionId b),
      required ''emotionType'' [any_only emotion_labels] (emotionType b),
      required ''confidenceScore'' [number_base, number_min 0, number_max 1]
        (confidenceScore b),
      optional ''ageEstimate'' [number_base, number_integer, number_min 0, number_max 120]
        (ageEstimate b),
      optional ''genderEstimate'' [any_only gender_labels] (genderEstimate b),
      optional ''imageId'' [number_base, number_integer] (imageId b),
      optional ''processingTimeMs'' [number_base, number_integer, number_min 0]
        (processingTimeMs b)]"

text \<open>
  The constraints of the ingestion contract as a table, in the order of the schema, and
  what it means for a body to violate one of them.
\<close>

definition emotion_constraints :: "violation list" where
  "emotion_constraints =
     [(''sessionId'', AnyRequired), (''sessionId'', NumberUnsafe),
      (''sessionId'', NumberInteger),
      (''emotionType'', AnyRequired), (''emotionType'', AnyOnly),
      (''confidenceScore'', AnyRequired), (''confidenceScore'', NumberUnsafe),
      (''confidenceScore'', NumberMin), (''confidenceScore'', NumberMax),
      (''ageEstimate'', NumberUnsafe), (''ageEstimate'', NumberInteger),
      (''ageEstimate'', NumberMin), (''ageEstimate'', NumberMax),
      (''genderEstimate'', AnyOnly),
      (''imageId'', NumberUnsafe), (''imageId'', NumberInteger),
      (''processingTimeMs'', NumberUnsafe), (''processingTimeMs'', NumberInteger),
      (''processingTimeMs'', NumberMin)]"

definition number_violates :: "constraint \<Rightarrow> rat \<Rightarrow> rat \<Rightarrow> rat \<Rightarrow> bool" where
  "number_violates c lo hi v \<longleftrightarrow>
     (c = NumberUnsafe \<and> is_unsafe v) \<or> (c = NumberInteger \<and> \<not> is_integer v) \<or>
     (c = NumberMin \<and> v < lo) \<or> (c = NumberMax \<and> hi < v)"

definition violated :: "emotion_body \<Rightarrow> violation \<Rightarrow> bool" where
  "violated b kc =
     (let k = fst kc; c = snd kc in
      if k = ''sessionId'' then
        (case sessionId b of None \<Rightarrow> c = AnyRequired
         | Some v \<Rightarrow> (c = NumberUnsafe \<and> is_unsafe v) \<or>
                    (c = NumberInteger \<and> \<not> is_integer v))
      else if k = ''emotionType'' then
        (case emotionType b of None \<Rightarrow> c = AnyRequired
         | Some v \<Rightarrow> c = AnyOnly \<and> v \<notin> set emotion_labels)
      else if k = ''confidenceScore'' then
        (case confidenceScore b of None \<Rightarrow> c = AnyRequired
         | Some v \<Rightarrow> number_violates c 0 1 v \<and> c \<noteq> NumberInteger)
      else if k = ''ageEstimate'' then
        (case ageEstimate b of None \<Rightarrow> False | Some v \<Rightarrow> number_violates c 0 120 v)
      else if k = ''genderEstimate'' then
        (case genderEstimate b of None \<Rightarrow> False
         | Some v \<Rightarrow> c = AnyOnly \<and> v \<notin> set gender_labels)
      else if k = ''imageId'' then
        (case imageId b of None \<Rightarrow> False
         | Some v \<Rightarrow> (c = NumberUnsafe \<and> is_unsafe v) \<or>
                    (c = NumberInteger \<and> \<not> is_integer v))
      else if k = ''processingTimeMs'' then
        (case processingTimeMs b of None \<Rightarrow> False
         | Some v \<Rightarrow> (c = NumberUnsafe \<and> is_unsafe v) \<or>
                    (c = NumberInteger \<and> \<not> is_integer v) \<or> (c = NumberMin \<and> v < 0))
      else False)"

text \<open>The four ways the spec names in which a payload breaks the contract.\<close>

definition breaks_contract :: "emotion_body \<Rightarrow> bool" where
  "breaks_contract b \<longleftrightarrow>
     (case emotionType b of None \<Rightarrow> False | Some t \<Rightarrow> t \<notin> set emotion_labels) \<or>
     (case confidenceScore b of None \<Rightarrow> False | Some c \<Rightarrow> c < 0 \<or> 1 < c) \<or>
     (case ageEstimate b of None \<Rightarrow> False | Some a \<Rightarrow> a < 0 \<or> 120 < a) \<or>
     (case genderEstimate b of None \<Rightarrow> False | Some g \<Rightarrow> g \<notin> set gender_labels)"

subsection \<open>sessionSchema, registerSchema, loginSchema\<close>

record session_body =
  sessionName :: "string option"
  deviceInfo :: "string option"
  ipAddress :: "string option"
  b_location :: "string option"

definition sessionSchema :: "session_body \<Rightarrow> violation option" where
  "sessionSchema b = first_error
     [required ''sessionName'' [string_base, string_min 3, string_max 100] (sessionName b),
      optional ''deviceInfo'' [string_base, string_max 500] (deviceInfo b),
      optional ''ipAddress'' [string_base, string_max 45] (ipAddress b),
      optional ''location'' [string_base, string_max 255] (b_location b)]"

text \<open>
  What the handlers take from libraries: Joi's test of an e-mail address, and bcrypt's
  hash and comparison. They are parameters of the model.
\<close>

record deps =
  joi_email :: "string \<Rightarrow> bool"
  bcrypt_hash :: "string \<Rightarrow> string"
  bcrypt_compare :: "string \<Rightarrow> string \<Rightarrow> bool"

record register_body =
  reg_username :: "string option"
  reg_email :: "string option"
  reg_password :: "string option"
  reg_fullName :: "string option"

definition registerSchema :: "deps \<Rightarrow> register_body \<Rightarrow> violation option" where
  "registerSchema L b = first_error
     [required ''username'' [string_base, string_alphanum, string_min 3, string_max 30]
        (reg_username b),
      required ''email'' [string_base, string_email (joi_email L)] (reg_email b),
      required ''password'' [string_base, string_min 6] (reg_password b),
      optional ''fullName'' [string_base, string_min 2, string_max 100] (reg_fullName b)]"

record login_body =
  login_email :: "string option"
  login_password :: "string option"

definition loginSchema :: "deps \<Rightarrow> login_body \<Rightarrow> violation option" where
  "loginSchema L b = first_error
     [required ''email'' [string_base, string_email (joi_email L)] (login_email b),
      required ''password'' [string_base] (login_password b)]"


section \<open>The Database class\<close>

definition findUserByEmail :: "db \<Rightarrow> string \<Rightarrow> user option" where
  "findUserByEmail d em = find (\<lambda>u. email u = em \<and> is_active u) (users d)"

definition findUserByUsername :: "db \<Rightarrow> string \<Rightarrow> user option" where
  "findUserByUsername d un = find (\<lambda>u. username u = un \<and> is_active u) (users d)"

text \<open>
  \<^verbatim>\<open>INSERT INTO users\<close>: the columns \<^verbatim>\<open>username\<close> and \<^verbatim>\<open>email\<close> are \<^verbatim>\<open>UNIQUE\<close>, so the
  insert is refused (\<open>None\<close>, the promise is rejected) when a row, active or not, has
  the same username or the same email.
\<close>

definition createUser ::
  "string \<Rightarrow> string \<Rightarrow> string \<Rightarrow> string option \<Rightarrow> db \<Rightarrow> (int \<times> db) option" where
  "createUser un em ph fn d =
     (if list_ex (\<lambda>u. username u = un \<or> email u = em) (users d) then None
      else Some (next_user_id d,
        d\<lparr>users := users d @
             [\<lparr>u_id = next_user_id d, username = un, email = em, password_hash = ph,
               full_name = fn, is_active = True, last_login = None\<rparr>],
          next_user_id := next_user_id d + 1\<rparr>))"

text \<open>
  \<^verbatim>\<open>INSERT INTO sessions\<close>: the handler passes no \<^verbatim>\<open>userId\<close>, so \<^verbatim>\<open>user_id\<close> is null; the
  other columns take their defaults.
\<close>

definition createSession :: "int \<Rightarrow> session_body \<Rightarrow> db \<Rightarrow> int \<times> db" where
  "createSession now b d =
     (next_session_id d,
      d\<lparr>sessions := sessions d @
           [\<lparr>s_id = next_session_id d, user_id = None, session_name = sessionName b,
             start_time = now, end_time = None, duration_seconds = None,
             total_detections = Some 0, accuracy_score = None,
             device_info = deviceInfo b, ip_address = ipAddress b,
             location = b_location b, is_completed = False\<rparr>],
        next_session_id := next_session_id d + 1\<rparr>)"

text \<open>
  The trigger \<^verbatim>\<open>update_sessions_duration\<close> runs after every update of a row of
  \<^verbatim>\<open>sessions\<close>: when the row had no end time and now has one, the duration becomes what
  the engine computes for the difference of the two Julian days times 86400.
\<close>

definition update_sessions_duration :: "engine \<Rightarrow> session \<Rightarrow> session \<Rightarrow> session" where
  "update_sessions_duration E old new =
     (case (end_time old, end_time new) of
        (None, Some t) \<Rightarrow> new\<lparr>duration_seconds := sql_duration E (start_time new) t\<rparr>
      | _ \<Rightarrow> new)"

text \<open>\<^verbatim>\<open>UPDATE sessions SET ... WHERE id = ?\<close>, with the trigger.\<close>

definition update_sessions :: "(session \<Rightarrow> session) \<Rightarrow> int \<Rightarrow> db \<Rightarrow> db" where
  "update_sessions f sid d =
     d\<lparr>sessions :=
         map (\<lambda>s. if s_id s = sid then update_sessions_duration (engine d) s (f s) else s)
           (sessions d)\<rparr>"


text \<open>
  \<^verbatim>\<open>INSERT INTO emotions\<close>. The columns \<^verbatim>\<open>session_id\<close>, \<^verbatim>\<open>emotion_type\<close> and
  \<^verbatim>\<open>confidence_score\<close> are \<^verbatim>\<open>NOT NULL\<close>. The method reads \<^verbatim>\<open>emotionData.processingTime\<close>,
  a key the handler never sets, so \<^verbatim>\<open>processing_time_ms\<close> is always null. The timestamp is
  the column's default, the time of the insert. The handler and the method both call
  \<^verbatim>\<open>JSON.stringify\<close> on \<^verbatim>\<open>faceCoordinates\<close> and \<^verbatim>\<open>rawData\<close>, so the two columns hold the
  JSON text of the object quoted once more as a JSON string; the model keeps the text of
  the object, which fixes what is stored, and nothing below reads the two columns.
\<close>

definition createEmotion :: "int \<Rightarrow> emotion_body \<Rightarrow> db \<Rightarrow> (int \<times> db) option" where
  "createEmotion now b d =
     (case (sessionId b, emotionType b, confidenceScore b) of
        (Some s, Some t, Some c) \<Rightarrow>
          Some (next_emotion_id d,
            d\<lparr>emotions := emotions d @
                 [\<lparr>e_id = next_emotion_id d, session_id = \<lfloor>s\<rfloor>, emotion_type = t,
                   confidence_score = c, timestamp = now,
                   face_coordinates = faceCoordinates b,
                   age_estimate = map_option floor (ageEstimate b),
                   gender_estimate = genderEstimate b,
                   image_id = map_option floor (imageId b),
                   processing_time_ms = None, raw_data = rawData b\<rparr>],
              next_emotion_id := next_emotion_id d + 1\<rparr>)
      | _ \<Rightarrow> None)"

section \<open>The route handlers\<close>

text \<open>
  A handler takes the request and the store and gives the response and the store after
  it. \<open>now\<close> is the clock of the server. A path parameter is the integer it spells:
  \<^verbatim>\<open>parseInt\<close> reads it, and where the handler binds the parameter as it is
  (\<^verbatim>\<open>PUT /:id\<close> and \<^verbatim>\<open>DELETE /:id\<close> of the sessions), the engine compares it as that
  integer; a parameter that spells no integer is outside the model. Once its schema has accepted a body, the required keys are present: the
  last case of the inner \<open>case\<close> of \<open>post_emotions\<close>, \<open>post_register\<close> and \<open>post_login\<close>
  stands for what the handler would do without them, and is never reached.
\<close>

subsection \<open>routes/emotions.js\<close>

record created =
  emotionId :: int
  c_sessionId :: rat
  c_emotionType :: string
  c_confidenceScore :: rat
  c_timestamp :: int

text \<open>\<^verbatim>\<open>SELECT id FROM sessions WHERE id = ?\<close> with the \<^verbatim>\<open>sessionId\<close> of the body.\<close>

definition session_exists :: "db \<Rightarrow> rat \<Rightarrow> bool" where
  "session_exists d s = list_ex (\<lambda>x. of_int (s_id x) = s) (sessions d)"

definition count_up :: "session \<Rightarrow> session" where
  "count_up s = s\<lparr>total_detections := map_option (\<lambda>n. n + 1) (total_detections s)\<rparr>"

definition count_down :: "session \<Rightarrow> session" where
  "count_down s = s\<lparr>total_detections := map_option (\<lambda>n. n - 1) (total_detections s)\<rparr>"

definition post_emotions :: "int \<Rightarrow> emotion_body \<Rightarrow> db \<Rightarrow> (error + created) \<times> db" where
  "post_emotions now b d =
     (case emotionSchema b of
        Some v \<Rightarrow> (Inl (ValidationError v), d)
      | None \<Rightarrow>
          (case (sessionId b, emotionType b, confidenceScore b) of
             (Some s, Some t, Some c) \<Rightarrow>
               if \<not> session_exists d s then (Inl (NotFound ''Session not found''), d)
               else
                 (case createEmotion now b d of
                    None \<Rightarrow> (Inl (Internal ''Failed to record emotion detection''), d)
                  | Some (lastID, d') \<Rightarrow>
                      (Inr \<lparr>emotionId = lastID, c_sessionId = s, c_emotionType = t,
                            c_confidenceScore = c, c_timestamp = now\<rparr>,
                       update_sessions count_up \<lfloor>s\<rfloor> d'))
           | _ \<Rightarrow> (Inl (NotFound ''Session not found''), d)))"

definition delete_emotion :: "int \<Rightarrow> db \<Rightarrow> (error + string) \<times> db" where
  "delete_emotion eid d =
     (case find (\<lambda>e. e_id e = eid) (emotions d) of
        None \<Rightarrow> (Inl (NotFound ''Emotion not found''), d)
      | Some e \<Rightarrow>
          (Inr ''Emotion deleted successfully'',
           update_sessions count_down (session_id e)
             (d\<lparr>emotions := filter (\<lambda>x. e_id x \<noteq> eid) (emotions d)\<rparr>)))"

text \<open>
  \<^verbatim>\<open>GET /summary/session/:sessionId\<close>. The answer is one of those the query may give, so
  the handler is a relation between the request and the response.
\<close>

definition get_emotion_summary :: "int \<Rightarrow> db \<Rightarrow> error + summary_row list \<Rightarrow> bool" where
  "get_emotion_summary sid d resp \<longleftrightarrow>
     (case resp of
        Inl e \<Rightarrow> \<not> list_ex (\<lambda>x. s_id x = sid) (sessions d) \<and> e = NotFound ''Session not found''
      | Inr rows \<Rightarrow> list_ex (\<lambda>x. s_id x = sid) (sessions d) \<and> getEmotionSummary d sid rows)"

subsection \<open>routes/sessions.js\<close>

definition post_sessions :: "int \<Rightarrow> session_body \<Rightarrow> db \<Rightarrow> (error + int) \<times> db" where
  "post_sessions now b d =
     (case sessionSchema b of
        Some v \<Rightarrow> (Inl (ValidationError v), d)
      | None \<Rightarrow> (case createSession now b d of (lastID, d') \<Rightarrow> (Inr lastID, d')))"

definition put_session :: "int \<Rightarrow> session_body \<Rightarrow> db \<Rightarrow> (error + string) \<times> db" where
  "put_session sid b d =
     (case sessionSchema b of
        Some v \<Rightarrow> (Inl (ValidationError v), d)
      | None \<Rightarrow>
          (Inr ''Session updated successfully'',
           update_sessions
             (\<lambda>s. s\<lparr>session_name := sessionName b, device_info := deviceInfo b,
                    ip_address := ipAddress b, location := b_location b\<rparr>) sid d))"

definition delete_session :: "int \<Rightarrow> db \<Rightarrow> (error + string) \<times> db" where
  "delete_session sid d =
     (Inr ''Session deleted successfully'',
      d\<lparr>sessions := filter (\<lambda>s. s_id s \<noteq> sid) (sessions d)\<rparr>)"

text \<open>
  \<^verbatim>\<open>PUT /:id/end\<close> takes \<^verbatim>\<open>endTime\<close>, \<^verbatim>\<open>duration\<close>, \<^verbatim>\<open>totalDetections\<close> and \<^verbatim>\<open>accuracy\<close> from
  the body with no schema, and runs its own \<^verbatim>\<open>UPDATE\<close>; an absent key is bound as null.
\<close>

record end_body =
  endTime :: "datetime option"
  duration :: "rat option"
  totalDetections :: "int option"
  accuracy :: "rat option"

definition put_session_end :: "int \<Rightarrow> end_body \<Rightarrow> db \<Rightarrow> (error + string) \<times> db" where
  "put_session_end sid b d =
     (Inr ''Session ended successfully'',
      update_sessions
        (\<lambda>s. s\<lparr>end_time := endTime b, duration_seconds := duration b,
               total_detections := totalDetections b, accuracy_score := accuracy b\<rparr>) sid d)"

subsection \<open>routes/auth.js\<close>

text \<open>
  The token is the payload that \<^verbatim>\<open>jwt.sign\<close> signs; the signature and the expiry are not
  modelled.
\<close>

record token =
  tok_userId :: int
  tok_username :: string
  tok_email :: string

record user_view =
  v_id :: int
  v_username :: string
  v_email :: string
  v_fullName :: "string option"

definition post_register ::
  "deps \<Rightarrow> register_body \<Rightarrow> db \<Rightarrow> (error + token \<times> user_view) \<times> db" where
  "post_register L b d =
     (case registerSchema L b of
        Some v \<Rightarrow> (Inl (ValidationError v), d)
      | None \<Rightarrow>
          (case (reg_username b, reg_email b, reg_password b) of
             (Some un, Some em, Some pw) \<Rightarrow>
               if findUserByEmail d em \<noteq> None
               then (Inl (Conflict ''User already exists with this email''), d)
               else if findUserByUsername d un \<noteq> None
               then (Inl (Conflict ''Username already taken''), d)
               else
                 (case createUser un em (bcrypt_hash L pw) (reg_fullName b) d of
                    None \<Rightarrow> (Inl (Internal ''Registration failed''), d)
                  | Some (lastID, d') \<Rightarrow>
                      (Inr (\<lparr>tok_userId = lastID, tok_username = un, tok_email = em\<rparr>,
                            \<lparr>v_id = lastID, v_username = un, v_email = em,
                             v_fullName = reg_fullName b\<rparr>), d'))
           | _ \<Rightarrow> (Inl (Internal ''Registration failed''), d)))"

definition post_login ::
  "deps \<Rightarrow> int \<Rightarrow> login_body \<Rightarrow> db \<Rightarrow> (error + token \<times> user_view) \<times> db" where
  "post_login L now b d =
     (case loginSchema L b of
        Some v \<Rightarrow> (Inl (ValidationError v), d)
      | None \<Rightarrow>
          (case (login_email b, login_password b) of
             (Some em, Some pw) \<Rightarrow>
               (case findUserByEmail d em of
                  None \<Rightarrow> (Inl (Unauthorized ''Invalid credentials''), d)
                | Some u \<Rightarrow>
                    if \<not> bcrypt_compare L pw (password_hash u)
                    then (Inl (Unauthorized ''Invalid credentials''), d)
                    else
                      (Inr (\<lparr>tok_userId = u_id u, tok_username = username u,
                             tok_email = email u\<rparr>,
                            \<lparr>v_id = u_id u, v_username = username u, v_email = email u,
                             v_fullName = full_name u\<rparr>),
                       d\<lparr>users :=
                           map (\<lambda>x. if u_id x = u_id u then x\<lparr>last_login := Some now\<rparr> else x)
                             (users d)\<rparr>))
           | _ \<Rightarrow> (Inl (Internal ''Login failed''), d)))"

subsection \<open>All the writing requests\<close>

datatype request =
  PostSessions int session_body
  | PutSession int session_body
  | DeleteSession int
  | PutSessionEnd int end_body
  | PostRegister register_body
  | PostLogin int login_body
  | PostEmotions int emotion_body
  | DeleteEmotion int

fun handle :: "deps \<Rightarrow> request \<Rightarrow> db \<Rightarrow> db" where
  "handle L (PostSessions now b) d = snd (post_sessions now b d)"
| "handle L (PutSession sid b) d = snd (put_session sid b d)"
| "handle L (DeleteSession sid) d = snd (delete_session sid d)"
| "handle L (PutSessionEnd sid b) d = snd (put_session_end sid b d)"
| "handle L (PostRegister b) d = snd (post_register L b d)"
| "handle L (PostLogin now b) d = snd (post_login L now b d)"
| "handle L (PostEmotions now b) d = snd (post_emotions now b d)"
| "handle L (DeleteEmotion eid) d = snd (delete_emotion eid d)"

fun handle_all :: "deps \<Rightarrow> request list \<Rightarrow> db \<Rightarrow> db" where
  "handle_all L [] d = d"
| "handle_all L (r # rs) d = handle_all L rs (handle L r d)"

text \<open>
  A sequence of the requests that open a session and add and remove observations.
\<close>

datatype observation_request =
  OpenSession int session_body
  | RecordObservation int emotion_body
  | RemoveObservation int

fun observe :: "observation_request \<Rightarrow> db \<Rightarrow> db" where
  "observe (OpenSession now b) d = snd (post_sessions now b d)"
| "observe (RecordObservation now b) d = snd (post_emotions now b d)"
| "observe (RemoveObservation eid) d = snd (delete_emotion eid d)"

fun observe_all :: "observation_request list \<Rightarrow> db \<Rightarrow> db" where
  "observe_all [] d = d"
| "observe_all (r # rs) d = observe_all rs (observe r d)"

text \<open>
  The consistency the spec asks of the store: the ids are below the counters of their
  tables, the emotion ids are distinct, and the counter of every session is the number
  of the observations stored for it.
\<close>

definition consistent :: "db \<Rightarrow> bool" where
  "consistent d \<longleftrightarrow>
     distinct (map e_id (emotions d)) \<and>
     list_all (\<lambda>e. e_id e < next_emotion_id d) (emotions d) \<and>
     list_all (\<lambda>e. session_id e < next_session_id d) (emotions d) \<and>
     list_all (\<lambda>s. s_id s < next_session_id d) (sessions d) \<and>
     list_all (\<lambda>s. total_detections s = Some (int (length (session_emotions d (s_id s)))))
       (sessions d)"

section \<open>An engine in IEEE double arithmetic\<close>

text \<open>
  A double is modelled by the rational it stands for. \<open>dbl x\<close> is the double nearest to
  \<open>x\<close>, with ties to the even significand: the exponent of \<open>x\<close> is found by doubling or
  halving (it is not below -1022, so that the subnormal numbers share the least
  exponent), and \<open>x\<close> is rounded to a multiple of 2 to the exponent minus 52. Overflow
  to infinity is not modelled. A JSON number is the double nearest to its decimal text,
  and an arithmetic operation of the engine is the exact operation followed by \<open>dbl\<close>.
\<close>

definition round_even :: "rat \<Rightarrow> int" where
  "round_even x =
     (let n = \<lfloor>x\<rfloor>; r = x - of_int n in
      if r < 1 / 2 then n else if 1 / 2 < r then n + 1 else if even n then n else n + 1)"

fun binade_down :: "nat \<Rightarrow> rat \<Rightarrow> int" where
  "binade_down 0 x = 0"
| "binade_down (Suc n) x = (if x < 1 then binade_down n (2 * x) - 1 else 0)"

fun binade_up :: "nat \<Rightarrow> rat \<Rightarrow> int" where
  "binade_up 0 x = 0"
| "binade_up (Suc n) x = (if 2 \<le> x then binade_up n (x / 2) + 1 else 0)"

definition binade :: "rat \<Rightarrow> int" where
  "binade x = (if \<bar>x\<bar> < 1 then binade_down 1022 \<bar>x\<bar> else binade_up 1023 \<bar>x\<bar>)"

definition pow2 :: "int \<Rightarrow> rat" where
  "pow2 e = (if 0 \<le> e then 2 ^ nat e else 1 / 2 ^ nat (- e))"

definition dbl :: "rat \<Rightarrow> rat" where
  "dbl x = (let q = pow2 (binade x - 52) in of_int (round_even (x / q)) * q)"

text \<open>
  \<^verbatim>\<open>AVG\<close> with a plain sum: the values are added one by one in doubles, and the sum is
  divided by their number.
\<close>

definition double_avg :: "rat list \<Rightarrow> rat" where
  "double_avg xs = dbl (foldl (\<lambda>s x. dbl (s + x)) 0 xs / of_nat (length xs))"

text \<open>
  The duration of the trigger for an end time that is a number, which \<^verbatim>\<open>julianday\<close> reads
  as a Julian day: a Julian day is kept as a whole number of milliseconds
  (210866760000000 of them at the start of 1970) and given back divided by 86400000.
  This engine reads no text as a date.
\<close>

fun julian_seconds :: "int \<Rightarrow> datetime \<Rightarrow> rat option" where
  "julian_seconds start (Text t) = None"
| "julian_seconds start (Number r) =
     (if 0 \<le> r \<and> r < 10746969 / 2 then
        (let jd_end = dbl (of_int \<lfloor>dbl (dbl (r * 86400000) + 1 / 2)\<rfloor> / 86400000);
             jd_start = dbl (of_int (210866760000000 + 1000 * start) / 86400000)
         in Some (dbl (dbl (jd_end - jd_start) * 86400)))
      else None)"

definition doubles :: engine where
  "doubles = \<lparr>sql_avg = double_avg, sql_duration = julian_seconds\<rparr>"

section \<open>The scenarios of the spec\<close>

text \<open>
  The scenarios run on the engine \<open>doubles\<close>, and a confidence written as a decimal is
  the double nearest to it: \<open>conf_092\<close> is the JSON number 0.92, \<open>conf_080\<close> is 0.80 and
  \<open>conf_086\<close> is 0.86.
\<close>

definition conf_092 :: rat where
  "conf_092 = dbl (92 / 100)"

definition conf_080 :: rat where
  "conf_080 = dbl (80 / 100)"

definition conf_086 :: rat where
  "conf_086 = dbl (86 / 100)"

definition observation :: "rat \<Rightarrow> string \<Rightarrow> rat \<Rightarrow> emotion_body" where
  "observation s t c =
     \<lparr>sessionId = Some s, emotionType = Some t, confidenceScore = Some c,
      faceCoordinates = None, ageEstimate = None, genderEstimate = None, imageId = None,
      processingTimeMs = None, rawData = None\<rparr>"

definition demo_body :: session_body where
  "demo_body =
     \<lparr>sessionName = Some ''Demo'', deviceInfo = None, ipAddress = None, b_location = None\<rparr>"

text \<open>The store after \<^verbatim>\<open>POST /api/sessions\<close> with the name "Demo", at time 100.\<close>

definition demo_db :: db where
  "demo_db = snd (post_sessions 100 demo_body (initial_db doubles))"

text \<open>Scenario A: two observations of "happy" for the session "Demo".\<close>

definition scenario_a :: "observation_request list" where
  "scenario_a =
     [RecordObservation 101 (observation 1 ''happy'' conf_092),
      RecordObservation 102 (observation 1 ''happy'' conf_080)]"

definition scenario_a_db :: db where
  "scenario_a_db = observe_all scenario_a demo_db"

text \<open>One observation of "sad", then one of "happy", for the session "Demo".\<close>

definition tie_db :: db where
  "tie_db =
     observe_all
       [RecordObservation 101 (observation 1 ''sad'' (1 / 2)),
        RecordObservation 102 (observation 1 ''happy'' (1 / 2))] demo_db"

definition summary_of :: "string \<Rightarrow> nat \<Rightarrow> rat \<Rightarrow> int \<Rightarrow> int \<Rightarrow> summary_row" where
  "summary_of l n a t0 t1 =
     \<lparr>r_emotion_type = l, r_count = n, avg_confidence = a, first_detection = t0,
      last_detection = t1\<rparr>"

text \<open>
  Stand-ins for the library functions, to run the handlers on concrete requests: an
  address is accepted when it has an \<open>@\<close>, and the hash of a password is the password
  behind a prefix.
\<close>

definition test_deps :: deps where
  "test_deps =
     \<lparr>joi_email = (\<lambda>s. CHR ''@'' \<in> set s),
      bcrypt_hash = (\<lambda>p. ''$2a$'' @ p),
      bcrypt_compare = (\<lambda>p h. h = ''$2a$'' @ p)\<rparr>"

text \<open>
  Open "Demo" on the new database, record "happy" twice and "sad" once, then remove the
  first observation.
\<close>

definition scenario_remove :: "observation_request list" where
  "scenario_remove =
     [OpenSession 100 demo_body,
      RecordObservation 101 (observation 1 ''happy'' conf_092),
      RecordObservation 102 (observation 1 ''happy'' conf_080),
      RecordObservation 103 (observation 1 ''sad'' (1 / 2)),
      RemoveObservation 1]"

definition demo_session :: "int \<Rightarrow> session" where
  "demo_session n =
     \<lparr>s_id = 1, user_id = None, session_name = Some ''Demo'', start_time = 100,
      end_time = None, duration_seconds = None, total_detections = Some n,
      accuracy_score = None, device_info = None, ip_address = None, location = None,
      is_completed = False\<rparr>"

text \<open>
  Record one observation for "Demo", then close the session with a client-supplied
  \<^verbatim>\<open>totalDetections\<close> of 0.
\<close>

definition closed_at_zero_db :: db where
  "closed_at_zero_db =
     snd (put_session_end 1
       \<lparr>endTime = Some (Number 2440588), duration = None, totalDetections = Some 0,
        accuracy = None\<rparr>
       (snd (post_emotions 101 (observation 1 ''happy'' conf_092) demo_db)))"

text \<open>
  The three ways the spec names in which a registration breaks the contract: the
  length or the characters of the username, the format of the e-mail address, the
  length of the password.
\<close>

definition breaks_register_contract :: "deps \<Rightarrow> register_body \<Rightarrow> bool" where
  "breaks_register_contract L b \<longleftrightarrow>
     (case reg_username b of None \<Rightarrow> False
      | Some un \<Rightarrow> length un < 3 \<or> 30 < length un \<or> \<not> list_all is_alphanum un) \<or>
     (case reg_email b of None \<Rightarrow> False | Some em \<Rightarrow> \<not> joi_email L em) \<or>
     (case reg_password b of None \<Rightarrow> False | Some pw \<Rightarrow> length pw < 6)"

definition registration :: "string \<Rightarrow> string \<Rightarrow> string \<Rightarrow> register_body" where
  "registration un em pw =
     \<lparr>reg_username = Some un, reg_email = Some em, reg_password = Some pw,
      reg_fullName = None\<rparr>"

definition credentials :: "string \<Rightarrow> string \<Rightarrow> login_body" where
  "credentials em pw = \<lparr>login_email = Some em, login_password = Some pw\<rparr>"

text \<open>The store after "alice" has registered.\<close>

definition alice_db :: db where
  "alice_db =
     snd (post_register test_deps (registration ''alice'' ''alice@example.com'' ''secret1'')
            (initial_db doubles))"


section \<open>Properties of the aggregation\<close>

lemma agg_step_types:
  "map a_type (agg_step e gs) =
     (if emotion_type e \<in> set (map a_type gs) then map a_type gs
      else map a_type gs @ [emotion_type e])"
  by (induction gs) (auto simp: acc_add_def acc_new_def)

lemma agg_step_distinct: "distinct (map a_type gs) \<Longrightarrow> distinct (map a_type (agg_step e gs))"
  by (simp add: agg_step_types)

lemma agg_step_lookup:
  "acc_lookup (agg_step e gs) l =
     (if l = emotion_type e
      then Some (case acc_lookup gs l of None \<Rightarrow> acc_new e | Some a \<Rightarrow> acc_add e a)
      else acc_lookup gs l)"
  by (induction gs) (auto simp: acc_lookup_def acc_add_def acc_new_def)

lemma agg_of_snoc_other:
  "l \<noteq> emotion_type e \<Longrightarrow> agg_of (seen @ [e]) l = agg_of seen l"
  by (simp add: agg_of_def)

lemma agg_of_snoc_new:
  assumes "emotion_type e \<notin> set (map emotion_type seen)"
  shows "agg_of (seen @ [e]) (emotion_type e) = acc_new e"
proof -
  have "filter (\<lambda>x. emotion_type x = emotion_type e) seen = []"
    using assms by (induction seen) auto
  then show ?thesis by (simp add: agg_of_def acc_new_def)
qed

lemma agg_of_snoc_same:
  assumes a: "emotion_type e \<in> set (map emotion_type seen)"
  shows "agg_of (seen @ [e]) (emotion_type e) = acc_add e (agg_of seen (emotion_type e))"
proof -
  let ?g = "filter (\<lambda>x. emotion_type x = emotion_type e) seen"
  from a have ne: "set (map timestamp ?g) \<noteq> {}" by auto
  have "Min (insert (timestamp e) (set (map timestamp ?g))) = min (Min (set (map timestamp ?g))) (timestamp e)"
    using ne by (simp add: min.commute)
  moreover have "Max (insert (timestamp e) (set (map timestamp ?g))) = max (Max (set (map timestamp ?g))) (timestamp e)"
    using ne by (simp add: max.commute)
  ultimately show ?thesis by (simp add: agg_of_def acc_add_def Let_def)
qed

lemma represents_step:
  assumes "represents gs seen"
  shows "represents (agg_step e gs) (seen @ [e])"
proof -
  have d: "distinct (map a_type (agg_step e gs))"
    using assms by (simp add: represents_def agg_step_distinct)
  have "acc_lookup (agg_step e gs) l =
        (if l \<in> set (map emotion_type (seen @ [e])) then Some (agg_of (seen @ [e]) l) else None)" for l
  proof (cases "l = emotion_type e")
    case True
    show ?thesis
    proof (cases "emotion_type e \<in> set (map emotion_type seen)")
      case True
      with \<open>l = emotion_type e\<close> assms show ?thesis
        by (simp add: agg_step_lookup represents_def agg_of_snoc_same)
    next
      case False
      with \<open>l = emotion_type e\<close> assms show ?thesis
        by (simp add: agg_step_lookup represents_def agg_of_snoc_new)
    qed
  next
    case False
    with assms show ?thesis
      by (simp add: agg_step_lookup represents_def agg_of_snoc_other)
  qed
  with d show ?thesis by (simp add: represents_def)
qed

lemma represents_aggregate:
  "represents gs seen \<Longrightarrow> represents (aggregate es gs) (seen @ es)"
proof (induction es arbitrary: gs seen)
  case Nil
  then show ?case by simp
next
  case (Cons e es)
  from Cons.prems have "represents (agg_step e gs) (seen @ [e])"
    by (rule represents_step)
  then have "represents (aggregate es (agg_step e gs)) ((seen @ [e]) @ es)"
    by (rule Cons.IH)
  then show ?case by simp
qed

lemma represents_aggregate_all: "represents (aggregate es []) es"
proof -
  have "represents [] []" by (simp add: represents_def acc_lookup_def)
  from represents_aggregate [OF this, of es] show ?thesis by simp
qed

lemma find_distinct_key:
  "distinct (map f xs) \<Longrightarrow> find (\<lambda>x. f x = k) xs = Some x \<longleftrightarrow> x \<in> set xs \<and> f x = k"
  by (induction xs) auto

lemma represents_mem:
  assumes "represents gs seen"
  shows "a \<in> set gs \<longleftrightarrow> a_type a \<in> set (map emotion_type seen) \<and> a = agg_of seen (a_type a)"
proof -
  have d: "distinct (map a_type gs)" using assms by (simp add: represents_def)
  have "a \<in> set gs \<longleftrightarrow> acc_lookup gs (a_type a) = Some a"
    using find_distinct_key [OF d, of "a_type a" a] by (simp add: acc_lookup_def)
  also have "\<dots> \<longleftrightarrow> a_type a \<in> set (map emotion_type seen) \<and> a = agg_of seen (a_type a)"
    using assms by (auto simp: represents_def)
  finally show ?thesis .
qed

lemma agg_step_count: "sum_list (map a_count (agg_step e gs)) = sum_list (map a_count gs) + 1"
  by (induction gs) (auto simp: acc_add_def acc_new_def)

lemma aggregate_count:
  "sum_list (map a_count (aggregate es gs)) = sum_list (map a_count gs) + length es"
  by (induction es arbitrary: gs) (auto simp: agg_step_count)

lemma acc_final_sel:
  "r_emotion_type (acc_final avg a) = a_type a"
  "r_count (acc_final avg a) = a_count a"
  "avg_confidence (acc_final avg a) = avg (a_values a)"
  "first_detection (acc_final avg a) = a_min a"
  "last_detection (acc_final avg a) = a_max a"
  by (simp_all add: acc_final_def)

lemma group_by_count: "sum_list (map r_count (group_by_emotion_type avg es)) = length es"
  by (simp add: group_by_emotion_type_def aggregate_count comp_def acc_final_sel)

lemma group_by_labels_distinct: "distinct (map r_emotion_type (group_by_emotion_type avg es))"
proof -
  have "distinct (map a_type (aggregate es []))"
    using represents_aggregate_all [of es] by (simp add: represents_def)
  then show ?thesis by (simp add: group_by_emotion_type_def comp_def acc_final_sel)
qed

lemma group_by_mem:
  "r \<in> set (group_by_emotion_type avg es) \<longleftrightarrow>
     r_emotion_type r \<in> set (map emotion_type es) \<and>
     r = acc_final avg (agg_of es (r_emotion_type r))"
proof
  assume "r \<in> set (group_by_emotion_type avg es)"
  then obtain a where a: "a \<in> set (aggregate es [])" and r: "r = acc_final avg a"
    by (auto simp: group_by_emotion_type_def)
  from a have "a_type a \<in> set (map emotion_type es) \<and> a = agg_of es (a_type a)"
    using represents_mem [OF represents_aggregate_all] by blast
  moreover have "r_emotion_type r = a_type a" using r by (simp add: acc_final_def)
  ultimately show "r_emotion_type r \<in> set (map emotion_type es) \<and>
     r = acc_final avg (agg_of es (r_emotion_type r))" using r by simp
next
  assume h: "r_emotion_type r \<in> set (map emotion_type es) \<and>
     r = acc_final avg (agg_of es (r_emotion_type r))"
  have t: "a_type (agg_of es l) = l" for l by (simp add: agg_of_def Let_def)
  from h have "agg_of es (r_emotion_type r) \<in> set (aggregate es [])"
    using represents_mem [OF represents_aggregate_all, of "agg_of es (r_emotion_type r)" es]
    by (simp add: t)
  then have "acc_final avg (agg_of es (r_emotion_type r)) \<in> set (group_by_emotion_type avg es)"
    by (simp add: group_by_emotion_type_def)
  with h show "r \<in> set (group_by_emotion_type avg es)" by simp
qed

section \<open>Properties of every answer of the summary query\<close>

lemma summary_count_sum:
  assumes "getEmotionSummary d sid rows"
  shows "sum_list (map r_count rows) = length (session_emotions d sid)"
proof -
  from assms have m: "mset rows = mset (group_by_emotion_type (sql_avg (engine d)) (session_emotions d sid))"
    by (simp add: getEmotionSummary_def order_by_count_desc_def)
  have "sum_list (map r_count rows) = sum_mset (image_mset r_count (mset rows))"
    by (metis mset_map sum_mset_sum_list)
  also have "\<dots> = sum_list (map r_count (group_by_emotion_type (sql_avg (engine d)) (session_emotions d sid)))"
    unfolding m by (metis mset_map sum_mset_sum_list)
  finally show ?thesis by (simp add: group_by_count)
qed

lemma summary_labels_distinct:
  assumes "getEmotionSummary d sid rows"
  shows "distinct (map r_emotion_type rows)"
proof -
  from assms have m: "mset rows = mset (group_by_emotion_type (sql_avg (engine d)) (session_emotions d sid))"
    by (simp add: getEmotionSummary_def order_by_count_desc_def)
  then have "mset (map r_emotion_type rows) =
             mset (map r_emotion_type (group_by_emotion_type (sql_avg (engine d)) (session_emotions d sid)))"
    by simp
  then show ?thesis
    using group_by_labels_distinct mset_eq_imp_distinct_iff by blast
qed

lemma summary_mem:
  assumes "getEmotionSummary d sid rows"
  shows "r \<in> set rows \<longleftrightarrow>
     r_emotion_type r \<in> set (map emotion_type (session_emotions d sid)) \<and>
     r = acc_final (sql_avg (engine d)) (agg_of (session_emotions d sid) (r_emotion_type r))"
proof -
  from assms have m: "mset rows = mset (group_by_emotion_type (sql_avg (engine d)) (session_emotions d sid))"
    by (simp add: getEmotionSummary_def order_by_count_desc_def)
  then have "set rows = set (group_by_emotion_type (sql_avg (engine d)) (session_emotions d sid))"
    by (rule mset_eq_setD)
  then show ?thesis by (simp only: group_by_mem)
qed

lemma summary_find_eq:
  assumes "getEmotionSummary d sid rows"
  shows "summary_find rows l =
     (if l \<in> set (map emotion_type (session_emotions d sid))
      then Some (acc_final (sql_avg (engine d)) (agg_of (session_emotions d sid) l)) else None)"
proof (cases "l \<in> set (map emotion_type (session_emotions d sid))")
  case True
  have t: "r_emotion_type (acc_final avg (agg_of es l)) = l" for es avg
    by (simp add: agg_of_def acc_final_def Let_def)
  from True have "acc_final (sql_avg (engine d)) (agg_of (session_emotions d sid) l) \<in> set rows"
    using summary_mem [OF assms, of "acc_final (sql_avg (engine d)) (agg_of (session_emotions d sid) l)"]
    by (simp add: t)
  then have "summary_find rows l = Some (acc_final (sql_avg (engine d)) (agg_of (session_emotions d sid) l))"
    unfolding summary_find_def
    using find_distinct_key [OF summary_labels_distinct [OF assms], of l] t by blast
  with True show ?thesis by simp
next
  case False
  have "r \<in> set rows \<Longrightarrow> r_emotion_type r \<noteq> l" for r
    using summary_mem [OF assms, of r] False by auto
  then have "summary_find rows l = None"
    unfolding summary_find_def by (auto simp: find_None_iff)
  with False show ?thesis by simp
qed

lemma summary_sorted_ok: "getEmotionSummary d sid (summary_sorted d sid)"
proof -
  let ?gs = "group_by_emotion_type (sql_avg (engine d)) (session_emotions d sid)"
  have "sorted (map r_count (sort_key r_count ?gs))" by simp
  then have "sorted_wrt (\<lambda>a b. r_count a \<le> r_count b) (sort_key r_count ?gs)"
    by (simp only: sorted_map)
  then have "sorted_wrt (\<lambda>a b. r_count b \<le> r_count a) (rev (sort_key r_count ?gs))"
    by (simp add: sorted_wrt_rev)
  then show ?thesis
    by (simp add: getEmotionSummary_def order_by_count_desc_def summary_sorted_def)
qed

section \<open>The doubles of the scenarios\<close>

lemma floor_rat_numeral:
  "\<lfloor>numeral a / numeral b :: rat\<rfloor> = numeral a div numeral b"
  using floor_divide_of_int_eq [of "numeral a" "numeral b", where ?'a = rat] by simp

lemma binade_down_numeral:
  "binade_down (numeral k) x = (if x < 1 then binade_down (pred_numeral k) (2 * x) - 1 else 0)"
  by (simp add: numeral_eq_Suc)

lemma binade_up_numeral:
  "binade_up (numeral k) x = (if 2 \<le> x then binade_up (pred_numeral k) (x / 2) + 1 else 0)"
  by (simp add: numeral_eq_Suc)

lemmas dbl_simps = dbl_def binade_def binade_down_numeral binade_up_numeral pow2_def
  round_even_def Let_def floor_rat_numeral

lemma conf_092_eq: "conf_092 = 8286623314361713 / 9007199254740992"
  by (simp add: conf_092_def dbl_simps)

lemma conf_080_eq: "conf_080 = 7205759403792794 / 9007199254740992"
  by (simp add: conf_080_def dbl_simps)

lemma conf_086_eq: "conf_086 = 7746191359077253 / 9007199254740992"
  by (simp add: conf_086_def dbl_simps)

lemma double_avg_scenario_a:
  "double_avg [conf_092, conf_080] = 7746191359077254 / 9007199254740992"
  by (simp add: double_avg_def conf_092_eq conf_080_eq) (simp add: dbl_simps)

lemma double_avg_single:
  "double_avg [conf_092] = conf_092"
  "double_avg [conf_080] = conf_080"
  "double_avg [1 / 2] = 1 / 2"
  by (simp_all add: double_avg_def conf_092_eq conf_080_eq) (simp_all add: dbl_simps)

lemma conf_valid:
  "\<not> conf_092 < 0" "\<not> 1 < conf_092" "\<not> conf_080 < 0" "\<not> 1 < conf_080"
  "0 \<le> conf_092" "conf_092 \<le> 1" "0 \<le> conf_080" "conf_080 \<le> 1"
  "\<not> conf_092 < - 9007199254740991" "\<not> 9007199254740991 < conf_092"
  "\<not> conf_080 < - 9007199254740991" "\<not> 9007199254740991 < conf_080"
  by (simp_all add: conf_092_eq conf_080_eq)

section \<open>C5: an observation for a session that does not exist\<close>

lemmas schema_simps =
  emotionSchema_def required_def optional_def number_base_def is_unsafe_def
  number_integer_def is_integer_def
  number_min_def number_max_def any_only_def emotion_labels_def gender_labels_def
  string_base_def string_min_def string_max_def sessionSchema_def

lemma demo_db_eq:
  "demo_db =
     \<lparr>engine = doubles, users = [], sessions =
        [\<lparr>s_id = 1, user_id = None, session_name = Some ''Demo'', start_time = 100,
          end_time = None, duration_seconds = None, total_detections = Some 0,
          accuracy_score = None, device_info = None, ip_address = None, location = None,
          is_completed = False\<rparr>],
      emotions = [], emotion_summaries = [],
      next_user_id = 1, next_session_id = 2, next_emotion_id = 1\<rparr>"
  by (simp add: demo_db_def post_sessions_def demo_body_def initial_db_def createSession_def
      schema_simps)

lemma observation_valid:
  "t \<in> set emotion_labels \<Longrightarrow> 0 \<le> c \<Longrightarrow> c \<le> 1 \<Longrightarrow> is_integer s \<Longrightarrow> \<not> is_unsafe s \<Longrightarrow>
   emotionSchema (observation s t c) = None"
  by (simp add: emotionSchema_def observation_def required_def optional_def number_base_def
      number_integer_def number_min_def number_max_def any_only_def is_unsafe_def)

text \<open>
  C5. A payload that passes the schema and whose \<^verbatim>\<open>sessionId\<close> is the id of no session is
  answered with \<open>NotFound\<close> (404, "Session not found"), and the store is unchanged: no
  observation is stored.
\<close>

theorem post_emotions_unknown_session:
  assumes "emotionSchema b = None"
    and "\<not> list_ex (\<lambda>x. sessionId b = Some (of_int (s_id x))) (sessions d)"
  shows "post_emotions now b d = (Inl (NotFound ''Session not found''), d)"
proof -
  have "\<not> session_exists d s" if "sessionId b = Some s" for s
    using assms(2) that by (auto simp: session_exists_def list_ex_iff)
  then show ?thesis
    using assms(1) by (auto simp: post_emotions_def split: option.splits)
qed

theorem post_emotions_unknown_session_witness:
  "emotionSchema (observation 9999 ''happy'' (9 / 10)) = None \<and>
   \<not> list_ex (\<lambda>x. sessionId (observation 9999 ''happy'' (9 / 10)) = Some (of_int (s_id x)))
        (sessions demo_db) \<and>
   post_emotions 101 (observation 9999 ''happy'' (9 / 10)) demo_db =
     (Inl (NotFound ''Session not found''), demo_db) \<and>
   emotions demo_db = []"
proof -
  have v: "emotionSchema (observation 9999 ''happy'' (9 / 10)) = None"
    by (simp add: observation_valid emotion_labels_def is_integer_def is_unsafe_def)
  have n: "\<not> list_ex (\<lambda>x. sessionId (observation 9999 ''happy'' (9 / 10)) = Some (of_int (s_id x)))
        (sessions demo_db)"
    by (simp add: demo_db_eq observation_def)
  show ?thesis
    using v n post_emotions_unknown_session [OF v n, of 101] by (simp add: demo_db_eq)
qed

lemma acc_final_agg_of: "acc_final avg (agg_of es l) = aggregate_row avg es l"
  by (simp add: acc_final_def agg_of_def aggregate_row_def Let_def)

lemmas handler_simps =
  post_emotions_def delete_emotion_def createEmotion_def update_sessions_def
  update_sessions_duration_def count_up_def count_down_def session_exists_def

lemma scenario_a_db_eq:
  "scenario_a_db =
     \<lparr>engine = doubles, users = [], sessions =
        [\<lparr>s_id = 1, user_id = None, session_name = Some ''Demo'', start_time = 100,
          end_time = None, duration_seconds = None, total_detections = Some 2,
          accuracy_score = None, device_info = None, ip_address = None, location = None,
          is_completed = False\<rparr>],
      emotions =
        [\<lparr>e_id = 1, session_id = 1, emotion_type = ''happy'', confidence_score = conf_092,
          timestamp = 101, face_coordinates = None, age_estimate = None,
          gender_estimate = None, image_id = None, processing_time_ms = None,
          raw_data = None\<rparr>,
         \<lparr>e_id = 2, session_id = 1, emotion_type = ''happy'', confidence_score = conf_080,
          timestamp = 102, face_coordinates = None, age_estimate = None,
          gender_estimate = None, image_id = None, processing_time_ms = None,
          raw_data = None\<rparr>],
      emotion_summaries = [],
      next_user_id = 1, next_session_id = 2, next_emotion_id = 3\<rparr>"
  by (simp add: scenario_a_db_def scenario_a_def demo_db_eq handler_simps schema_simps
      observation_def conf_valid)

lemma tie_db_eq:
  "tie_db =
     \<lparr>engine = doubles, users = [], sessions =
        [\<lparr>s_id = 1, user_id = None, session_name = Some ''Demo'', start_time = 100,
          end_time = None, duration_seconds = None, total_detections = Some 2,
          accuracy_score = None, device_info = None, ip_address = None, location = None,
          is_completed = False\<rparr>],
      emotions =
        [\<lparr>e_id = 1, session_id = 1, emotion_type = ''sad'', confidence_score = 1 / 2,
          timestamp = 101, face_coordinates = None, age_estimate = None,
          gender_estimate = None, image_id = None, processing_time_ms = None,
          raw_data = None\<rparr>,
         \<lparr>e_id = 2, session_id = 1, emotion_type = ''happy'', confidence_score = 1 / 2,
          timestamp = 102, face_coordinates = None, age_estimate = None,
          gender_estimate = None, image_id = None, processing_time_ms = None,
          raw_data = None\<rparr>],
      emotion_summaries = [],
      next_user_id = 1, next_session_id = 2, next_emotion_id = 3\<rparr>"
  by (simp add: tie_db_def demo_db_eq handler_simps schema_simps observation_def)

lemma scenario_a_groups:
  "group_by_emotion_type (sql_avg (engine scenario_a_db)) (session_emotions scenario_a_db 1) =
     [summary_of ''happy'' 2 (7746191359077254 / 9007199254740992) 101 102]"
  by (simp add: scenario_a_db_eq session_emotions_def group_by_emotion_type_def
      acc_final_def acc_new_def acc_add_def summary_of_def doubles_def
      double_avg_scenario_a)

lemma tie_groups:
  "group_by_emotion_type (sql_avg (engine tie_db)) (session_emotions tie_db 1) =
     [summary_of ''sad'' 1 (1 / 2) 101 101, summary_of ''happy'' 1 (1 / 2) 102 102]"
  by (simp add: tie_db_eq session_emotions_def group_by_emotion_type_def
      acc_final_def acc_new_def acc_add_def summary_of_def doubles_def
      double_avg_single)

section \<open>C3: the order of the summary\<close>

lemma count_desc_unique:
  fixes xs ys :: "summary_row list"
  assumes "sorted_wrt (\<lambda>a b. r_count b \<le> r_count a) xs"
    and "sorted_wrt (\<lambda>a b. r_count b \<le> r_count a) ys"
    and "mset xs = mset ys"
  shows "map r_count xs = map r_count ys"
proof -
  have s: "sorted (rev (map r_count zs))"
    if "sorted_wrt (\<lambda>a b. r_count b \<le> r_count a) zs" for zs :: "summary_row list"
  proof -
    from that have "sorted_wrt (\<lambda>a b. r_count a \<le> r_count b) (rev zs)"
      by (simp add: sorted_wrt_rev)
    then have "sorted (map r_count (rev zs))" by (simp only: sorted_map)
    then show ?thesis by (simp only: rev_map)
  qed
  have m: "mset (rev (map r_count xs)) = mset (rev (map r_count ys))"
    using assms(3) by simp
  have "rev (map r_count xs) = sort (rev (map r_count ys))"
    using properties_for_sort [OF m s [OF assms(1)]] by simp
  also have "\<dots> = rev (map r_count ys)"
    using s [OF assms(2)] by (simp add: sorted_sort_id)
  finally show ?thesis by simp
qed

text \<open>
  C3, as the code has it. When the session exists, \<^verbatim>\<open>GET /summary/session/:sessionId\<close>
  answers with the rows of the summary, one per label, ordered by count descending. The
  query names no second sort key: any two answers are permutations of each other with
  the same sequence of counts, and nothing more is fixed about rows of equal count.
\<close>

theorem summary_order_by_count:
  assumes "get_emotion_summary sid d (Inr rows)"
  shows "sorted_wrt (\<lambda>a b. r_count b \<le> r_count a) rows \<and>
         distinct (map r_emotion_type rows) \<and>
         (\<forall>rows'. get_emotion_summary sid d (Inr rows') \<longrightarrow>
            mset rows' = mset rows \<and> map r_count rows' = map r_count rows)"
proof -
  from assms have g: "getEmotionSummary d sid rows"
    by (simp add: get_emotion_summary_def)
  then have s: "sorted_wrt (\<lambda>a b. r_count b \<le> r_count a) rows"
    and m: "mset rows = mset (group_by_emotion_type (sql_avg (engine d)) (session_emotions d sid))"
    by (simp_all add: getEmotionSummary_def order_by_count_desc_def)
  have "mset rows' = mset rows \<and> map r_count rows' = map r_count rows"
    if "get_emotion_summary sid d (Inr rows')" for rows'
  proof -
    from that have "getEmotionSummary d sid rows'"
      by (simp add: get_emotion_summary_def)
    then have s': "sorted_wrt (\<lambda>a b. r_count b \<le> r_count a) rows'"
      and m': "mset rows' = mset (group_by_emotion_type (sql_avg (engine d)) (session_emotions d sid))"
      by (simp_all add: getEmotionSummary_def order_by_count_desc_def)
    from m m' have e: "mset rows' = mset rows" by simp
    with count_desc_unique [OF s' s] show ?thesis by simp
  qed
  with s summary_labels_distinct [OF g] show ?thesis by blast
qed

theorem summary_order_by_count_witness:
  "get_emotion_summary 1 tie_db
     (Inr [summary_of ''sad'' 1 (1 / 2) 101 101, summary_of ''happy'' 1 (1 / 2) 102 102]) \<and>
   sorted_wrt (\<lambda>a b. r_count b \<le> r_count a)
     [summary_of ''sad'' 1 (1 / 2) 101 101, summary_of ''happy'' 1 (1 / 2) 102 102] \<and>
   distinct (map r_emotion_type
     [summary_of ''sad'' 1 (1 / 2) 101 101, summary_of ''happy'' 1 (1 / 2) 102 102])"
proof -
  have h: "get_emotion_summary 1 tie_db
     (Inr [summary_of ''sad'' 1 (1 / 2) 101 101, summary_of ''happy'' 1 (1 / 2) 102 102])"
    by (simp add: get_emotion_summary_def getEmotionSummary_def order_by_count_desc_def
        tie_groups) (simp add: tie_db_eq summary_of_def)
  from summary_order_by_count [OF h] h show ?thesis by blast
qed

text \<open>
  The order the spec asks for is not what the query promises. With one "sad" and one
  "happy" observation the counts tie, and the query may answer with "sad" before
  "happy" as well as with "happy" before "sad".
\<close>

theorem summary_tie_order_counterexample:
  "get_emotion_summary 1 tie_db
     (Inr [summary_of ''sad'' 1 (1 / 2) 101 101, summary_of ''happy'' 1 (1 / 2) 102 102]) \<and>
   \<not> count_desc_label_asc
     [summary_of ''sad'' 1 (1 / 2) 101 101, summary_of ''happy'' 1 (1 / 2) 102 102] \<and>
   get_emotion_summary 1 tie_db
     (Inr [summary_of ''happy'' 1 (1 / 2) 102 102, summary_of ''sad'' 1 (1 / 2) 101 101])"
proof -
  have "get_emotion_summary 1 tie_db
     (Inr [summary_of ''sad'' 1 (1 / 2) 101 101, summary_of ''happy'' 1 (1 / 2) 102 102])"
    by (simp add: get_emotion_summary_def getEmotionSummary_def order_by_count_desc_def
        tie_groups) (simp add: tie_db_eq summary_of_def)
  moreover have "\<not> count_desc_label_asc
     [summary_of ''sad'' 1 (1 / 2) 101 101, summary_of ''happy'' 1 (1 / 2) 102 102]"
    by (simp add: count_desc_label_asc_def summary_of_def less_eq_char_def less_char_def)
  moreover have "get_emotion_summary 1 tie_db
     (Inr [summary_of ''happy'' 1 (1 / 2) 102 102, summary_of ''sad'' 1 (1 / 2) 101 101])"
    by (simp add: get_emotion_summary_def getEmotionSummary_def order_by_count_desc_def
        tie_groups) (simp add: tie_db_eq summary_of_def)
  ultimately show ?thesis by blast
qed

section \<open>C10: the summary is the aggregate of the stored observations\<close>

lemma update_sessions_frame:
  "engine (update_sessions f sid d) = engine d"
  "users (update_sessions f sid d) = users d"
  "emotions (update_sessions f sid d) = emotions d"
  "emotion_summaries (update_sessions f sid d) = emotion_summaries d"
  "next_emotion_id (update_sessions f sid d) = next_emotion_id d"
  "next_session_id (update_sessions f sid d) = next_session_id d"
  by (simp_all add: update_sessions_def)

lemma post_sessions_summaries:
  "emotion_summaries (snd (post_sessions now b d)) = emotion_summaries d"
  by (simp add: post_sessions_def createSession_def split: option.splits)

lemma put_session_summaries:
  "emotion_summaries (snd (put_session sid b d)) = emotion_summaries d"
  by (simp add: put_session_def update_sessions_frame split: option.splits)

lemma delete_session_summaries:
  "emotion_summaries (snd (delete_session sid d)) = emotion_summaries d"
  by (simp add: delete_session_def)

lemma put_session_end_summaries:
  "emotion_summaries (snd (put_session_end sid b d)) = emotion_summaries d"
  by (simp add: put_session_end_def update_sessions_frame)

lemma post_register_summaries:
  "emotion_summaries (snd (post_register L b d)) = emotion_summaries d"
  by (auto simp: post_register_def createUser_def split: option.splits if_splits)

lemma post_login_summaries:
  "emotion_summaries (snd (post_login L now b d)) = emotion_summaries d"
  by (auto simp: post_login_def split: option.splits if_splits)

lemma post_emotions_summaries:
  "emotion_summaries (snd (post_emotions now b d)) = emotion_summaries d"
  by (auto simp: post_emotions_def createEmotion_def update_sessions_frame
      split: option.splits if_splits)

lemma delete_emotion_summaries:
  "emotion_summaries (snd (delete_emotion eid d)) = emotion_summaries d"
  by (auto simp: delete_emotion_def update_sessions_frame split: option.splits)

lemma handle_summaries: "emotion_summaries (handle L r d) = emotion_summaries d"
  by (cases r)
    (simp_all add: post_sessions_summaries put_session_summaries delete_session_summaries
      put_session_end_summaries post_register_summaries post_login_summaries
      post_emotions_summaries delete_emotion_summaries)

text \<open>
  C10. No writing request changes the table \<^verbatim>\<open>emotion_summaries\<close>. Every answer of the
  summary query has one row per label among the observations stored for the session,
  and that row is the aggregate of those observations: their number, the engine's
  average of their confidences, their least and greatest timestamps. The answers do not depend on what
  \<^verbatim>\<open>emotion_summaries\<close> holds.
\<close>

theorem summary_is_aggregate_of_stored:
  "emotion_summaries (handle L r d) = emotion_summaries d \<and>
   (getEmotionSummary d sid rows \<longrightarrow>
      distinct (map r_emotion_type rows) \<and>
      (\<forall>l. summary_find rows l =
         (if l \<in> set (map emotion_type (session_emotions d sid))
          then Some (aggregate_row (sql_avg (engine d)) (session_emotions d sid) l) else None))) \<and>
   getEmotionSummary (d\<lparr>emotion_summaries := stored\<rparr>) sid rows =
     getEmotionSummary d sid rows"
proof -
  have "getEmotionSummary (d\<lparr>emotion_summaries := stored\<rparr>) sid rows =
        getEmotionSummary d sid rows"
    by (simp add: getEmotionSummary_def session_emotions_def)
  moreover have "distinct (map r_emotion_type rows) \<and>
      (\<forall>l. summary_find rows l =
         (if l \<in> set (map emotion_type (session_emotions d sid))
          then Some (aggregate_row (sql_avg (engine d)) (session_emotions d sid) l) else None))"
    if g: "getEmotionSummary d sid rows"
    using summary_labels_distinct [OF g] summary_find_eq [OF g]
    by (simp add: acc_final_agg_of)
  ultimately show ?thesis using handle_summaries by blast
qed

theorem summary_is_aggregate_of_stored_witness:
  "getEmotionSummary scenario_a_db 1 [summary_of ''happy'' 2 (7746191359077254 / 9007199254740992) 101 102] \<and>
   ''happy'' \<in> set (map emotion_type (session_emotions scenario_a_db 1)) \<and>
   summary_find [summary_of ''happy'' 2 (7746191359077254 / 9007199254740992) 101 102] ''happy'' =
     Some (aggregate_row (sql_avg (engine scenario_a_db)) (session_emotions scenario_a_db 1) ''happy'') \<and>
   aggregate_row (sql_avg (engine scenario_a_db)) (session_emotions scenario_a_db 1) ''happy'' =
     summary_of ''happy'' 2 (7746191359077254 / 9007199254740992) 101 102 \<and>
   emotion_summaries
     (handle test_deps (PostEmotions 103 (observation 1 ''sad'' (1 / 2))) scenario_a_db) = []"
proof -
  have g: "getEmotionSummary scenario_a_db 1 [summary_of ''happy'' 2 (7746191359077254 / 9007199254740992) 101 102]"
    by (simp add: getEmotionSummary_def order_by_count_desc_def scenario_a_groups)
  have m: "''happy'' \<in> set (map emotion_type (session_emotions scenario_a_db 1))"
    by (simp add: scenario_a_db_eq session_emotions_def)
  have a: "aggregate_row (sql_avg (engine scenario_a_db)) (session_emotions scenario_a_db 1) ''happy'' =
     summary_of ''happy'' 2 (7746191359077254 / 9007199254740992) 101 102"
    by (simp add: scenario_a_db_eq session_emotions_def aggregate_row_def summary_of_def
        doubles_def double_avg_scenario_a)
  have e: "emotion_summaries scenario_a_db = []"
    by (simp add: scenario_a_db_eq)
  from summary_is_aggregate_of_stored
    [of test_deps "PostEmotions 103 (observation 1 ''sad'' (1 / 2))" scenario_a_db 1
      "[summary_of ''happy'' 2 (7746191359077254 / 9007199254740992) 101 102]"] g m a e
  show ?thesis by simp
qed

section \<open>C1: the counter is the number of stored observations\<close>

lemma trigger_same_end:
  "end_time new = end_time old \<Longrightarrow> update_sessions_duration E old new = new"
  by (simp add: update_sessions_duration_def split: option.splits)

lemma update_sessions_count_up:
  "sessions (update_sessions count_up sid d) =
     map (\<lambda>x. if s_id x = sid then count_up x else x) (sessions d)"
  by (simp add: update_sessions_def trigger_same_end count_up_def)

lemma update_sessions_count_down:
  "sessions (update_sessions count_down sid d) =
     map (\<lambda>x. if s_id x = sid then count_down x else x) (sessions d)"
  by (simp add: update_sessions_def trigger_same_end count_down_def)

lemma post_emotions_failure:
  "fst (post_emotions now b d) = Inl e \<Longrightarrow> snd (post_emotions now b d) = d"
  by (auto simp: post_emotions_def split: option.splits if_splits)

lemma post_emotions_success:
  assumes "fst (post_emotions now b d) = Inr c"
  shows "\<exists>s t cf e. sessionId b = Some s \<and> emotionType b = Some t \<and>
           confidenceScore b = Some cf \<and> emotionSchema b = None \<and> session_exists d s \<and>
           e_id e = next_emotion_id d \<and> session_id e = \<lfloor>s\<rfloor> \<and> emotion_type e = t \<and>
           confidence_score e = cf \<and> timestamp e = now \<and>
           emotions (snd (post_emotions now b d)) = emotions d @ [e] \<and>
           next_emotion_id (snd (post_emotions now b d)) = next_emotion_id d + 1 \<and>
           next_session_id (snd (post_emotions now b d)) = next_session_id d \<and>
           sessions (snd (post_emotions now b d)) =
             map (\<lambda>x. if s_id x = \<lfloor>s\<rfloor> then count_up x else x) (sessions d)"
  using assms
  by (auto simp: post_emotions_def createEmotion_def update_sessions_count_up
      update_sessions_frame split: option.splits if_splits)

lemma count_up_sel: "s_id (count_up x) = s_id x"
  "total_detections (count_up x) = map_option (\<lambda>n. n + 1) (total_detections x)"
  by (simp_all add: count_up_def)

lemma count_down_sel: "s_id (count_down x) = s_id x"
  "total_detections (count_down x) = map_option (\<lambda>n. n - 1) (total_detections x)"
  by (simp_all add: count_down_def)

lemma post_emotions_consistent:
  assumes "consistent d"
  shows "consistent (snd (post_emotions now b d))"
proof (cases "fst (post_emotions now b d)")
  case (Inl e)
  then show ?thesis using assms by (simp add: post_emotions_failure)
next
  case (Inr c)
  from post_emotions_success [OF Inr] obtain s :: rat and e where
    e: "e_id e = next_emotion_id d" "session_id e = \<lfloor>s\<rfloor>"
    and ex: "session_exists d s"
    and es: "emotions (snd (post_emotions now b d)) = emotions d @ [e]"
    and nx: "next_emotion_id (snd (post_emotions now b d)) = next_emotion_id d + 1"
    and ns: "next_session_id (snd (post_emotions now b d)) = next_session_id d"
    and ss: "sessions (snd (post_emotions now b d)) =
             map (\<lambda>x. if s_id x = \<lfloor>s\<rfloor> then count_up x else x) (sessions d)"
    by blast
  let ?d = "snd (post_emotions now b d)"
  from assms have lt: "\<forall>x \<in> set (emotions d). e_id x < next_emotion_id d"
    and di: "distinct (map e_id (emotions d))"
    and le: "\<forall>x \<in> set (emotions d). session_id x < next_session_id d"
    and ls: "\<forall>x \<in> set (sessions d). s_id x < next_session_id d"
    and ct: "\<forall>x \<in> set (sessions d).
               total_detections x = Some (int (length (session_emotions d (s_id x))))"
    by (simp_all add: consistent_def list_all_iff)
  from ex obtain x where "x \<in> set (sessions d)" "of_int (s_id x) = s"
    by (auto simp: session_exists_def list_ex_iff)
  then have "\<lfloor>s\<rfloor> < next_session_id d" using ls by auto
  then have 4: "list_all (\<lambda>x. session_id x < next_session_id ?d) (emotions ?d)"
    using le by (auto simp: es ns e list_all_iff)
  have 5: "list_all (\<lambda>x. s_id x < next_session_id ?d) (sessions ?d)"
    using ls by (auto simp: ss ns list_all_iff count_up_sel)
  have "next_emotion_id d \<notin> set (map e_id (emotions d))"
    using lt by auto
  then have 1: "distinct (map e_id (emotions ?d))"
    using di by (simp add: es e)
  have 2: "list_all (\<lambda>x. e_id x < next_emotion_id ?d) (emotions ?d)"
    using lt by (auto simp: es nx e list_all_iff)
  have se: "session_emotions ?d k =
            session_emotions d k @ (if \<lfloor>s\<rfloor> = k then [e] else [])" for k
    by (simp add: session_emotions_def es e)
  have 3: "list_all (\<lambda>x. total_detections x = Some (int (length (session_emotions ?d (s_id x)))))
             (sessions ?d)"
    using ct by (auto simp: ss list_all_iff se count_up_sel)
  from 1 2 3 4 5 show ?thesis by (simp add: consistent_def)
qed

lemma filter_remove_id:
  assumes "distinct (map e_id es)" and "e \<in> set es"
  shows "length (filter P (filter (\<lambda>x. e_id x \<noteq> e_id e) es)) + (if P e then 1 else 0) =
         length (filter P es)"
  using assms
proof (induction es)
  case Nil
  then show ?case by simp
next
  case (Cons x xs)
  show ?case
  proof (cases "x = e")
    case True
    from Cons.prems True have "e_id e \<notin> e_id ` set xs" by simp
    then have "\<forall>y \<in> set xs. e_id y \<noteq> e_id e" by (metis imageI)
    then have "filter (\<lambda>y. e_id y \<noteq> e_id e) xs = xs" by (simp add: filter_id_conv)
    with True show ?thesis by simp
  next
    case False
    with Cons.prems have "e \<in> set xs" "e_id x \<noteq> e_id e" "distinct (map e_id xs)"
      by auto
    with Cons.IH show ?thesis by auto
  qed
qed

lemma delete_emotion_failure:
  "fst (delete_emotion eid d) = Inl e \<Longrightarrow> snd (delete_emotion eid d) = d"
  by (auto simp: delete_emotion_def split: option.splits)

lemma delete_emotion_success:
  assumes "fst (delete_emotion eid d) = Inr m"
  shows "\<exists>e. e \<in> set (emotions d) \<and> e_id e = eid \<and>
           find (\<lambda>x. e_id x = eid) (emotions d) = Some e \<and>
           emotions (snd (delete_emotion eid d)) = filter (\<lambda>x. e_id x \<noteq> eid) (emotions d) \<and>
           next_emotion_id (snd (delete_emotion eid d)) = next_emotion_id d \<and>
           next_session_id (snd (delete_emotion eid d)) = next_session_id d \<and>
           sessions (snd (delete_emotion eid d)) =
             map (\<lambda>x. if s_id x = session_id e then count_down x else x) (sessions d)"
proof -
  from assms obtain e where f: "find (\<lambda>x. e_id x = eid) (emotions d) = Some e"
    by (auto simp: delete_emotion_def split: option.splits)
  then have "e \<in> set (emotions d) \<and> e_id e = eid"
    by (auto simp: find_Some_iff)
  with f show ?thesis
    by (auto simp: delete_emotion_def update_sessions_count_down update_sessions_frame)
qed

lemma delete_emotion_consistent:
  assumes "consistent d"
  shows "consistent (snd (delete_emotion eid d))"
proof (cases "fst (delete_emotion eid d)")
  case (Inl e)
  then show ?thesis using assms by (simp add: delete_emotion_failure)
next
  case (Inr m)
  from delete_emotion_success [OF Inr] obtain e where
    e: "e \<in> set (emotions d)" "e_id e = eid"
    and es: "emotions (snd (delete_emotion eid d)) = filter (\<lambda>x. e_id x \<noteq> eid) (emotions d)"
    and nx: "next_emotion_id (snd (delete_emotion eid d)) = next_emotion_id d"
    and ns: "next_session_id (snd (delete_emotion eid d)) = next_session_id d"
    and ss: "sessions (snd (delete_emotion eid d)) =
             map (\<lambda>x. if s_id x = session_id e then count_down x else x) (sessions d)"
    by blast
  let ?d = "snd (delete_emotion eid d)"
  from assms have lt: "\<forall>x \<in> set (emotions d). e_id x < next_emotion_id d"
    and di: "distinct (map e_id (emotions d))"
    and le: "\<forall>x \<in> set (emotions d). session_id x < next_session_id d"
    and ls: "\<forall>x \<in> set (sessions d). s_id x < next_session_id d"
    and ct: "\<forall>x \<in> set (sessions d).
               total_detections x = Some (int (length (session_emotions d (s_id x))))"
    by (simp_all add: consistent_def list_all_iff)
  have 4: "list_all (\<lambda>x. session_id x < next_session_id ?d) (emotions ?d)"
    using le by (auto simp: es ns list_all_iff)
  have 5: "list_all (\<lambda>x. s_id x < next_session_id ?d) (sessions ?d)"
    using ls by (auto simp: ss ns list_all_iff count_down_sel)
  have 1: "distinct (map e_id (emotions ?d))"
    using di by (simp add: es distinct_map_filter)
  have 2: "list_all (\<lambda>x. e_id x < next_emotion_id ?d) (emotions ?d)"
    using lt by (auto simp: es nx list_all_iff)
  have se: "length (session_emotions ?d k) + (if session_id e = k then 1 else 0) =
            length (session_emotions d k)" for k
    using filter_remove_id [OF di e(1), of "\<lambda>x. session_id x = k"]
    by (simp add: session_emotions_def es e(2) filter_filter conj_commute)
  have 3: "list_all (\<lambda>x. total_detections x = Some (int (length (session_emotions ?d (s_id x)))))
             (sessions ?d)"
    unfolding list_all_iff ss
  proof
    fix y assume "y \<in> set (map (\<lambda>x. if s_id x = session_id e then count_down x else x) (sessions d))"
    then obtain x where x: "x \<in> set (sessions d)"
      and y: "y = (if s_id x = session_id e then count_down x else x)" by auto
    from ct x have t: "total_detections x = Some (int (length (session_emotions d (s_id x))))"
      by blast
    show "total_detections y = Some (int (length (session_emotions ?d (s_id y))))"
    proof (cases "s_id x = session_id e")
      case True
      with se [of "s_id x"] have "int (length (session_emotions d (s_id x))) - 1 =
          int (length (session_emotions ?d (s_id x)))" by simp
      with True y t show ?thesis by (simp add: count_down_sel)
    next
      case False
      with se [of "s_id x"] y t show ?thesis by simp
    qed
  qed
  from 1 2 3 4 5 show ?thesis by (simp add: consistent_def)
qed

lemma post_sessions_consistent:
  assumes "consistent d"
  shows "consistent (snd (post_sessions now b d))"
proof (cases "sessionSchema b")
  case (Some v)
  then show ?thesis using assms by (simp add: post_sessions_def)
next
  case None
  let ?d = "snd (post_sessions now b d)"
  from assms have le: "\<forall>x \<in> set (emotions d). session_id x < next_session_id d"
    by (simp add: consistent_def list_all_iff)
  then have "\<forall>x \<in> set (emotions d). session_id x \<noteq> next_session_id d" by auto
  then have "session_emotions d (next_session_id d) = []"
    by (simp add: session_emotions_def filter_empty_conv)
  then show ?thesis
    using assms None
    by (auto simp: consistent_def post_sessions_def createSession_def list_all_iff
        session_emotions_def)
qed

lemma observe_consistent: "consistent d \<Longrightarrow> consistent (observe r d)"
  by (cases r)
    (simp_all add: post_sessions_consistent post_emotions_consistent
      delete_emotion_consistent)

lemma observe_all_consistent: "consistent d \<Longrightarrow> consistent (observe_all rs d)"
  by (induction rs arbitrary: d) (simp_all add: observe_consistent)

lemma initial_db_consistent: "consistent (initial_db E)"
  by (simp add: consistent_def initial_db_def)

lemma demo_db_consistent: "consistent demo_db"
  by (simp add: consistent_def demo_db_eq session_emotions_def)


text \<open>
  C1. Start from a store in which every counter is the number of the observations of
  its session (the new database is one), and run any sequence of requests that open
  sessions, record observations and remove observations. Then for every session, the
  counts of the rows of every answer of the summary query add up to the session's
  \<^verbatim>\<open>total_detections\<close>.
\<close>

theorem summary_counts_sum_to_total:
  assumes "consistent d"
    and "s \<in> set (sessions (observe_all rs d))"
    and "getEmotionSummary (observe_all rs d) (s_id s) rows"
  shows "total_detections s = Some (int (sum_list (map r_count rows)))"
proof -
  have "consistent (observe_all rs d)"
    using assms(1) by (rule observe_all_consistent)
  then have "total_detections s =
             Some (int (length (session_emotions (observe_all rs d) (s_id s))))"
    using assms(2) by (simp add: consistent_def list_all_iff)
  then show ?thesis by (simp add: summary_count_sum [OF assms(3)])
qed


lemma scenario_remove_sessions:
  "sessions (observe_all scenario_remove (initial_db doubles)) = [demo_session 2]"
  by (simp add: scenario_remove_def initial_db_def post_sessions_def createSession_def
      demo_body_def handler_simps schema_simps observation_def demo_session_def conf_valid)

lemma scenario_remove_groups:
  "group_by_emotion_type (sql_avg (engine (observe_all scenario_remove (initial_db doubles))))
     (session_emotions (observe_all scenario_remove (initial_db doubles)) 1) =
     [summary_of ''happy'' 1 conf_080 102 102, summary_of ''sad'' 1 (1 / 2) 103 103]"
  by (simp add: scenario_remove_def initial_db_def post_sessions_def createSession_def
      demo_body_def handler_simps schema_simps observation_def conf_valid
      session_emotions_def group_by_emotion_type_def
      acc_final_def acc_new_def acc_add_def summary_of_def doubles_def double_avg_single)

theorem summary_counts_sum_to_total_witness:
  "consistent (initial_db doubles) \<and>
   demo_session 2 \<in> set (sessions (observe_all scenario_remove (initial_db doubles))) \<and>
   getEmotionSummary (observe_all scenario_remove (initial_db doubles)) (s_id (demo_session 2))
     [summary_of ''happy'' 1 conf_080 102 102, summary_of ''sad'' 1 (1 / 2) 103 103] \<and>
   total_detections (demo_session 2) = Some 2 \<and>
   sum_list (map r_count
     [summary_of ''happy'' 1 conf_080 102 102, summary_of ''sad'' 1 (1 / 2) 103 103]) = 2"
proof -
  have m: "demo_session 2 \<in> set (sessions (observe_all scenario_remove (initial_db doubles)))"
    by (simp add: scenario_remove_sessions)
  have i: "s_id (demo_session 2) = 1" by (simp add: demo_session_def)
  have g: "getEmotionSummary (observe_all scenario_remove (initial_db doubles)) (s_id (demo_session 2))
     [summary_of ''happy'' 1 conf_080 102 102, summary_of ''sad'' 1 (1 / 2) 103 103]"
    unfolding i
    by (simp add: getEmotionSummary_def order_by_count_desc_def scenario_remove_groups)
      (simp add: summary_of_def)
  have c: "sum_list (map r_count
     [summary_of ''happy'' 1 conf_080 102 102, summary_of ''sad'' 1 (1 / 2) 103 103]) = 2"
    by (simp add: summary_of_def)
  from summary_counts_sum_to_total [OF initial_db_consistent m g]
    initial_db_consistent [of doubles] m g c
  show ?thesis by simp
qed

section \<open>C2: removing an observation and the counter\<close>

text \<open>
  C2, as the code has it. \<^verbatim>\<open>DELETE /api/emotions/:id\<close> subtracts exactly 1 from the counter
  of the session of the observation it removes, and leaves every other counter as it
  was; there is no floor and no rejection. So the counter stays non-negative when it
  was at least 1, and in particular in a consistent store.
\<close>

theorem remove_decrements_by_one:
  assumes "i < length (sessions d)"
    and "total_detections (sessions d ! i) = Some n"
  shows "\<exists>m. total_detections (sessions (snd (delete_emotion eid d)) ! i) = Some m \<and>
           m = (case find (\<lambda>e. e_id e = eid) (emotions d) of
                  None \<Rightarrow> n
                | Some e \<Rightarrow> if session_id e = s_id (sessions d ! i) then n - 1 else n) \<and>
           (1 \<le> n \<longrightarrow> 0 \<le> m) \<and>
           (consistent d \<longrightarrow> 0 \<le> m)"
proof (cases "find (\<lambda>e. e_id e = eid) (emotions d)")
  case None
  then have "snd (delete_emotion eid d) = d" by (simp add: delete_emotion_def)
  moreover have "consistent d \<longrightarrow> 0 \<le> n"
    using assms by (auto simp: consistent_def list_all_iff)
  ultimately show ?thesis using assms None by auto
next
  case (Some e)
  let ?d = "snd (delete_emotion eid d)"
  from Some have ss: "sessions ?d =
      map (\<lambda>x. if s_id x = session_id e then count_down x else x) (sessions d)"
    by (simp add: delete_emotion_def update_sessions_count_down)
  let ?m = "if session_id e = s_id (sessions d ! i) then n - 1 else n"
  have t: "total_detections (sessions ?d ! i) = Some ?m"
    using assms by (auto simp: ss count_down_sel)
  have c: "0 \<le> ?m" if "consistent d"
  proof -
    from that have "consistent ?d" by (rule delete_emotion_consistent)
    moreover have "sessions ?d ! i \<in> set (sessions ?d)"
      using assms(1) by (simp add: ss)
    ultimately have "total_detections (sessions ?d ! i) =
        Some (int (length (session_emotions ?d (s_id (sessions ?d ! i)))))"
      by (simp add: consistent_def list_all_iff)
    with t show ?thesis by simp
  qed
  from t c Some show ?thesis by auto
qed

theorem remove_decrements_by_one_witness:
  "(0::nat) < length (sessions scenario_a_db) \<and>
   total_detections (sessions scenario_a_db ! 0) = Some 2 \<and>
   consistent scenario_a_db \<and>
   total_detections (sessions (snd (delete_emotion 1 scenario_a_db)) ! 0) = Some 1"
proof -
  have a: "(0::nat) < length (sessions scenario_a_db)" by (simp add: scenario_a_db_eq)
  have b: "total_detections (sessions scenario_a_db ! 0) = Some 2"
    by (simp add: scenario_a_db_eq)
  have c: "consistent scenario_a_db"
    unfolding scenario_a_db_def using demo_db_consistent by (rule observe_all_consistent)
  from remove_decrements_by_one [OF a b, of 1] a b c show ?thesis
    by (simp add: scenario_a_db_eq)
qed

text \<open>
  The counter does go below zero. After \<^verbatim>\<open>PUT /1/end\<close> with \<^verbatim>\<open>totalDetections = 0\<close> the
  session still has its observation; removing it is answered with success and leaves
  the counter at -1.
\<close>

theorem remove_underflow_counterexample:
  "map total_detections (sessions closed_at_zero_db) = [Some 0] \<and>
   fst (delete_emotion 1 closed_at_zero_db) = Inr ''Emotion deleted successfully'' \<and>
   map total_detections (sessions (snd (delete_emotion 1 closed_at_zero_db))) = [Some (- 1)]"
  by (simp add: closed_at_zero_db_def demo_db_eq put_session_end_def handler_simps
      schema_simps observation_def conf_valid)

section \<open>C4: an observation shows in the next summary\<close>

lemma first_error_None: "first_error xs = None \<longleftrightarrow> (\<forall>x \<in> set xs. x = None)"
  by (induction xs rule: first_error.induct) auto

lemma required_None:
  "required key rules x = None \<longleftrightarrow> (\<exists>v. x = Some v \<and> first_failed rules v = None)"
  by (cases x) (simp_all add: required_def)

lemma optional_None:
  "optional key rules x = None \<longleftrightarrow> (\<forall>v. x = Some v \<longrightarrow> first_failed rules v = None)"
  by (cases x) (simp_all add: optional_def)

lemma emotionSchema_accepts:
  assumes "emotionSchema b = None"
  shows "\<exists>s t c. sessionId b = Some s \<and> is_integer s \<and>
           emotionType b = Some t \<and> t \<in> set emotion_labels \<and>
           confidenceScore b = Some c \<and> 0 \<le> c \<and> c \<le> 1"
proof -
  from assms have
    "required ''sessionId'' [number_base, number_integer] (sessionId b) = None"
    and "required ''emotionType'' [any_only emotion_labels] (emotionType b) = None"
    and "required ''confidenceScore'' [number_base, number_min 0, number_max 1]
           (confidenceScore b) = None"
    by (simp_all add: emotionSchema_def first_error_None)
  then show ?thesis
    by (auto simp: required_None number_base_def number_integer_def any_only_def
        number_min_def number_max_def split: if_splits option.splits)
qed

lemma post_emotions_records:
  assumes "emotionSchema b = None" and "sessionId b = Some s" and "session_exists d s"
  shows "\<exists>c. fst (post_emotions now b d) = Inr c \<and> emotionId c = next_emotion_id d \<and>
              c_timestamp c = now"
proof -
  from emotionSchema_accepts [OF assms(1)]
  obtain t cf where "emotionType b = Some t" "confidenceScore b = Some cf"
    by blast
  with assms show ?thesis
    by (simp add: post_emotions_def createEmotion_def)
qed

lemma summary_count_eq:
  assumes "getEmotionSummary d sid rows"
  shows "summary_count rows l =
         length (filter (\<lambda>e. emotion_type e = l) (session_emotions d sid))"
proof (cases "l \<in> set (map emotion_type (session_emotions d sid))")
  case True
  then show ?thesis
    by (simp add: summary_count_def summary_find_eq [OF assms] acc_final_sel agg_of_def
        Let_def)
next
  case False
  then have "filter (\<lambda>e. emotion_type e = l) (session_emotions d sid) = []"
    by (induction "session_emotions d sid") (auto simp: filter_empty_conv)
  with False show ?thesis
    by (simp add: summary_count_def summary_find_eq [OF assms])
qed

lemma summary_avg_eq:
  assumes "getEmotionSummary d sid rows"
    and "l \<in> set (map emotion_type (session_emotions d sid))"
  shows "map_option avg_confidence (summary_find rows l) =
         Some (sql_avg (engine d) (label_confidences d sid l))"
  using assms(2)
  by (simp add: summary_find_eq [OF assms(1)] acc_final_agg_of aggregate_row_def
      label_confidences_def Let_def)

lemma post_emotions_engine: "engine (snd (post_emotions now b d)) = engine d"
  by (auto simp: post_emotions_def createEmotion_def update_sessions_frame
      split: option.splits if_splits)

text \<open>
  C4, as the code has it. A payload that passes the schema for a session that exists is
  recorded, and every answer of the summary query after it shows it: the confidence is
  appended to the stored confidences of its label, the count of the label is one more
  than in any answer before, and the average is the engine's \<^verbatim>\<open>AVG\<close> of the stored
  confidences of the label. In scenario A, with the sum and the division in doubles,
  the only answer is the row "happy" with count 2 and average
  7746191359077254 / 2^53, the double printed as 0.8600000000000001, and the counter of
  the session is 2.
\<close>

theorem recorded_observation_in_summary:
  assumes "emotionSchema b = None"
    and "sessionId b = Some s"
    and "session_exists d s"
    and "emotionType b = Some l"
    and "confidenceScore b = Some cf"
    and "getEmotionSummary d \<lfloor>s\<rfloor> rows"
    and "getEmotionSummary (snd (post_emotions now b d)) \<lfloor>s\<rfloor> rows'"
  shows "(\<exists>c. fst (post_emotions now b d) = Inr c) \<and>
         label_confidences (snd (post_emotions now b d)) \<lfloor>s\<rfloor> l =
           label_confidences d \<lfloor>s\<rfloor> l @ [cf] \<and>
         summary_count rows' l = summary_count rows l + 1 \<and>
         map_option avg_confidence (summary_find rows' l) =
           Some (sql_avg (engine d)
                   (label_confidences (snd (post_emotions now b d)) \<lfloor>s\<rfloor> l)) \<and>
         (getEmotionSummary scenario_a_db 1 rows'' \<longrightarrow>
            rows'' =
              [summary_of ''happy'' 2 (7746191359077254 / 9007199254740992) 101 102]) \<and>
         map total_detections (sessions scenario_a_db) = [Some 2]"
proof -
  let ?d = "snd (post_emotions now b d)"
  from post_emotions_records [OF assms(1-3)]
  obtain c where c: "fst (post_emotions now b d) = Inr c" by blast
  from post_emotions_success [OF c] assms(2,4,5) obtain e where
    e: "session_id e = \<lfloor>s\<rfloor>" "emotion_type e = l" "confidence_score e = cf"
    and es: "emotions ?d = emotions d @ [e]"
    by auto
  have se: "session_emotions ?d \<lfloor>s\<rfloor> = session_emotions d \<lfloor>s\<rfloor> @ [e]"
    by (simp add: session_emotions_def es e)
  have 1: "label_confidences ?d \<lfloor>s\<rfloor> l = label_confidences d \<lfloor>s\<rfloor> l @ [cf]"
    by (simp add: label_confidences_def se e)
  have 2: "summary_count rows' l = summary_count rows l + 1"
    by (simp add: summary_count_eq [OF assms(6)] summary_count_eq [OF assms(7)] se e)
  have "l \<in> set (map emotion_type (session_emotions ?d \<lfloor>s\<rfloor>))"
    by (simp add: se e)
  then have "map_option avg_confidence (summary_find rows' l) =
           Some (sql_avg (engine ?d) (label_confidences ?d \<lfloor>s\<rfloor> l))"
    by (rule summary_avg_eq [OF assms(7)])
  then have 3: "map_option avg_confidence (summary_find rows' l) =
           Some (sql_avg (engine d) (label_confidences ?d \<lfloor>s\<rfloor> l))"
    by (simp only: post_emotions_engine)
  have 4: "rows'' = [summary_of ''happy'' 2 (7746191359077254 / 9007199254740992) 101 102]"
    if "getEmotionSummary scenario_a_db 1 rows''"
    using that
    by (simp add: getEmotionSummary_def order_by_count_desc_def scenario_a_groups)
  have 5: "map total_detections (sessions scenario_a_db) = [Some 2]"
    by (simp add: scenario_a_db_eq)
  from c 1 2 3 4 5 show ?thesis by blast
qed

theorem recorded_observation_in_summary_witness:
  "emotionSchema (observation 1 ''happy'' conf_080) = None \<and>
   sessionId (observation 1 ''happy'' conf_080) = Some 1 \<and>
   emotionType (observation 1 ''happy'' conf_080) = Some ''happy'' \<and>
   confidenceScore (observation 1 ''happy'' conf_080) = Some conf_080 \<and>
   session_exists (snd (post_emotions 101 (observation 1 ''happy'' conf_092) demo_db)) 1 \<and>
   getEmotionSummary (snd (post_emotions 101 (observation 1 ''happy'' conf_092) demo_db)) 1
     [summary_of ''happy'' 1 conf_092 101 101] \<and>
   getEmotionSummary scenario_a_db 1
     [summary_of ''happy'' 2 (7746191359077254 / 9007199254740992) 101 102] \<and>
   summary_count
     [summary_of ''happy'' 2 (7746191359077254 / 9007199254740992) 101 102] ''happy'' =
     summary_count [summary_of ''happy'' 1 conf_092 101 101] ''happy'' + 1 \<and>
   map_option avg_confidence
     (summary_find
        [summary_of ''happy'' 2 (7746191359077254 / 9007199254740992) 101 102] ''happy'')
     = Some (double_avg (label_confidences scenario_a_db 1 ''happy'')) \<and>
   label_confidences scenario_a_db 1 ''happy'' = [conf_092, conf_080]"
proof -
  let ?b = "observation 1 ''happy'' conf_080"
  let ?d = "snd (post_emotions 101 (observation 1 ''happy'' conf_092) demo_db)"
  let ?r = "summary_of ''happy'' 2 (7746191359077254 / 9007199254740992) 101 102"
  have d: "snd (post_emotions 102 ?b ?d) = scenario_a_db"
    by (simp add: scenario_a_db_def scenario_a_def)
  have v: "emotionSchema ?b = None"
    by (simp add: observation_valid emotion_labels_def is_integer_def is_unsafe_def conf_valid)
  have i: "sessionId ?b = Some 1" "emotionType ?b = Some ''happy''"
    "confidenceScore ?b = Some conf_080"
    by (simp_all add: observation_def)
  have x: "session_exists ?d 1"
    by (simp add: demo_db_eq handler_simps schema_simps observation_def conf_valid)
  have n: "sql_avg (engine ?d) = double_avg"
    by (simp add: post_emotions_engine demo_db_eq doubles_def)
  have g: "getEmotionSummary ?d \<lfloor>1::rat\<rfloor> [summary_of ''happy'' 1 conf_092 101 101]"
    by (simp add: demo_db_eq handler_simps schema_simps observation_def conf_valid
        getEmotionSummary_def order_by_count_desc_def session_emotions_def
        group_by_emotion_type_def acc_final_def acc_new_def summary_of_def doubles_def
        double_avg_single)
  have g': "getEmotionSummary (snd (post_emotions 102 ?b ?d)) \<lfloor>1::rat\<rfloor> [?r]"
    unfolding d
    by (simp add: getEmotionSummary_def order_by_count_desc_def scenario_a_groups)
  have m: "label_confidences scenario_a_db 1 ''happy'' = [conf_092, conf_080]"
    by (simp add: scenario_a_db_eq label_confidences_def session_emotions_def)
  note t = recorded_observation_in_summary [OF v i(1) x i(2) i(3) g g', unfolded d floor_one n]
  from t have c: "summary_count [?r] ''happy'' =
     summary_count [summary_of ''happy'' 1 conf_092 101 101] ''happy'' + 1"
    by blast
  from t have a: "map_option avg_confidence (summary_find [?r] ''happy'')
     = Some (double_avg (label_confidences scenario_a_db 1 ''happy''))"
    by blast
  from v i x g [unfolded floor_one] g' [unfolded d floor_one] c a m show ?thesis
    by blast
qed

text \<open>
  In scenario A the average of the answer is not 0.86: it is the double above the
  double nearest to 0.86, and it is not the arithmetic mean of the two stored
  confidences either, which is no double.
\<close>

theorem scenario_a_average_counterexample:
  "getEmotionSummary scenario_a_db 1
     [summary_of ''happy'' 2 (7746191359077254 / 9007199254740992) 101 102] \<and>
   avg_confidence (summary_of ''happy'' 2 (7746191359077254 / 9007199254740992) 101 102)
     \<noteq> 86 / 100 \<and>
   avg_confidence (summary_of ''happy'' 2 (7746191359077254 / 9007199254740992) 101 102)
     \<noteq> conf_086 \<and>
   avg_confidence (summary_of ''happy'' 2 (7746191359077254 / 9007199254740992) 101 102)
     \<noteq> mean (label_confidences scenario_a_db 1 ''happy'')"
proof -
  have g: "getEmotionSummary scenario_a_db 1
     [summary_of ''happy'' 2 (7746191359077254 / 9007199254740992) 101 102]"
    by (simp add: getEmotionSummary_def order_by_count_desc_def scenario_a_groups)
  have m: "mean (label_confidences scenario_a_db 1 ''happy'') =
           15492382718154507 / 18014398509481984"
    by (simp add: scenario_a_db_eq label_confidences_def session_emotions_def mean_def
        conf_092_eq conf_080_eq)
  show ?thesis
    using g by (simp add: summary_of_def conf_086_eq m)
qed

section \<open>C6: validation of the payload\<close>

lemma emotionSchema_first_violated:
  "emotionSchema b = find (violated b) emotion_constraints"
  by (cases "sessionId b"; cases "emotionType b"; cases "confidenceScore b";
      cases "ageEstimate b"; cases "genderEstimate b"; cases "imageId b";
      cases "processingTimeMs b")
    (simp_all add: emotionSchema_def emotion_constraints_def violated_def required_def
      optional_def number_base_def number_integer_def number_min_def number_max_def
      any_only_def number_violates_def)


lemma emotionSchema_optional_accepts:
  assumes "emotionSchema b = None"
  shows "(\<forall>a. ageEstimate b = Some a \<longrightarrow> is_integer a \<and> 0 \<le> a \<and> a \<le> 120) \<and>
         (\<forall>g. genderEstimate b = Some g \<longrightarrow> g \<in> set gender_labels)"
proof -
  from assms have
    "optional ''ageEstimate'' [number_base, number_integer, number_min 0, number_max 120]
       (ageEstimate b) = None"
    and "optional ''genderEstimate'' [any_only gender_labels] (genderEstimate b) = None"
    by (simp_all add: emotionSchema_def first_error_None)
  then show ?thesis
    by (auto simp: optional_None number_base_def number_integer_def any_only_def
        number_min_def number_max_def split: if_splits option.splits)
qed

lemma breaks_contract_refused:
  assumes "breaks_contract b"
  shows "emotionSchema b \<noteq> None"
proof
  assume n: "emotionSchema b = None"
  from emotionSchema_accepts [OF n] emotionSchema_optional_accepts [OF n] assms
  show False
    by (auto simp: breaks_contract_def split: option.splits)
qed

text \<open>
  C6. A payload whose label is outside the seven labels, whose confidence is outside
  [0,1], whose age is present and outside [0,120], or whose gender is present and
  neither "male" nor "female", is answered with a validation error (400); the store is
  unchanged, so nothing is stored and nothing is clamped; and the error is the first
  constraint, in the order of the schema, that the payload violates.
\<close>

theorem invalid_payload_rejected:
  assumes "breaks_contract b"
  shows "\<exists>v. post_emotions now b d = (Inl (ValidationError v), d) \<and>
              find (violated b) emotion_constraints = Some v \<and>
              status_code (ValidationError v) = 400"
proof -
  from breaks_contract_refused [OF assms] obtain v where v: "emotionSchema b = Some v"
    by auto
  then have "post_emotions now b d = (Inl (ValidationError v), d)"
    by (simp add: post_emotions_def)
  moreover have "find (violated b) emotion_constraints = Some v"
    using v by (simp add: emotionSchema_first_violated)
  ultimately show ?thesis by simp
qed

theorem invalid_payload_rejected_witness:
  "breaks_contract (observation 1 ''happy'' (3 / 2)) \<and>
   post_emotions 101 (observation 1 ''happy'' (3 / 2)) demo_db =
     (Inl (ValidationError (''confidenceScore'', NumberMax)), demo_db) \<and>
   find (violated (observation 1 ''happy'' (3 / 2))) emotion_constraints =
     Some (''confidenceScore'', NumberMax)"
proof -
  have h: "breaks_contract (observation 1 ''happy'' (3 / 2))"
    by (simp add: breaks_contract_def observation_def)
  have e: "emotionSchema (observation 1 ''happy'' (3 / 2)) =
           Some (''confidenceScore'', NumberMax)"
    by (simp add: schema_simps observation_def)
  from invalid_payload_rejected [OF h, of 101 demo_db] h e show ?thesis
    by (auto simp: post_emotions_def emotionSchema_first_violated)
qed

section \<open>C7: closing a session\<close>





section \<open>C8: registration\<close>

lemmas auth_simps =
  registerSchema_def loginSchema_def required_def optional_def string_base_def
  string_alphanum_def string_min_def string_max_def string_email_def is_alphanum_def
  less_eq_char_def test_deps_def registration_def credentials_def

lemma alice_db_eq:
  "alice_db =
     \<lparr>engine = doubles, users =
        [\<lparr>u_id = 1, username = ''alice'', email = ''alice@example.com'',
          password_hash = ''$2a$secret1'', full_name = None, is_active = True,
          last_login = None\<rparr>],
      sessions = [], emotions = [], emotion_summaries = [],
      next_user_id = 2, next_session_id = 1, next_emotion_id = 1\<rparr>"
  by (simp add: alice_db_def post_register_def auth_simps initial_db_def createUser_def
      findUserByEmail_def findUserByUsername_def)

lemma find_Some_list_ex: "find P xs \<noteq> None \<longleftrightarrow> list_ex P xs"
  by (induction xs) auto

lemma registerSchema_accepts:
  assumes "registerSchema L b = None"
  shows "\<exists>un em pw. reg_username b = Some un \<and> reg_email b = Some em \<and>
           reg_password b = Some pw \<and> 3 \<le> length un \<and> length un \<le> 30 \<and>
           list_all is_alphanum un \<and> joi_email L em \<and> 6 \<le> length pw"
proof -
  from assms have
    "required ''username'' [string_base, string_alphanum, string_min 3, string_max 30]
       (reg_username b) = None"
    and "required ''email'' [string_base, string_email (joi_email L)] (reg_email b) = None"
    and "required ''password'' [string_base, string_min 6] (reg_password b) = None"
    by (simp_all add: registerSchema_def first_error_None)
  then show ?thesis
    by (auto simp: required_None string_base_def string_alphanum_def string_min_def
        string_max_def string_email_def split: if_splits option.splits)
qed

lemma handle_users_active:
  assumes "list_all is_active (users d)"
  shows "list_all is_active (users (handle L r d))"
proof (cases r)
  case (PostRegister b)
  then show ?thesis
    using assms
    by (auto simp: post_register_def createUser_def split: option.splits if_splits)
next
  case (PostLogin now b)
  then show ?thesis
    using assms
    by (auto simp: post_login_def list_all_iff split: option.splits if_splits)
next
  case (PostEmotions now b)
  then show ?thesis
    using assms
    by (auto simp: post_emotions_def createEmotion_def update_sessions_frame
        split: option.splits if_splits)
next
  case (DeleteEmotion eid)
  then show ?thesis
    using assms
    by (auto simp: delete_emotion_def update_sessions_frame split: option.splits)
qed (use assms in \<open>simp_all add: post_sessions_def createSession_def put_session_def
      delete_session_def put_session_end_def update_sessions_frame split: option.splits\<close>)

lemma handle_all_users_active:
  "list_all is_active (users d) \<Longrightarrow> list_all is_active (users (handle_all L rs d))"
  by (induction rs arbitrary: d) (simp_all add: handle_users_active)

lemma reachable_users_active: "list_all is_active (users (handle_all L rs (initial_db E)))"
  by (rule handle_all_users_active) (simp add: initial_db_def)

lemma active_lookup:
  assumes "list_all is_active (users d)"
  shows "list_ex (\<lambda>u. P u \<and> is_active u) (users d) \<longleftrightarrow> list_ex P (users d)"
  using assms by (auto simp: list_all_iff list_ex_iff)

text \<open>
  C8. No request deactivates a user: in every store that requests reach from the new
  database, all users are active. In such a store, a registration that breaks the
  schema is answered with a validation error, whoever is registered already; one that
  passes it is answered with \<open>Conflict\<close> when its e-mail address belongs to a user, with
  the message for the address also when the username is taken too, and with \<open>Conflict\<close>
  for the username when only the username belongs to a user. The store is unchanged in
  each case.
\<close>

theorem register_failures:
  assumes "list_all is_active (users d)"
  shows "(breaks_register_contract L b \<longrightarrow>
            (\<exists>v. post_register L b d = (Inl (ValidationError v), d))) \<and>
         (registerSchema L b = None \<and> reg_email b = Some em \<and> reg_username b = Some un \<longrightarrow>
            (list_ex (\<lambda>u. email u = em) (users d) \<longrightarrow>
               post_register L b d =
                 (Inl (Conflict ''User already exists with this email''), d)) \<and>
            (\<not> list_ex (\<lambda>u. email u = em) (users d) \<and>
             list_ex (\<lambda>u. username u = un) (users d) \<longrightarrow>
               post_register L b d = (Inl (Conflict ''Username already taken''), d)))"
proof -
  have 1: "\<exists>v. post_register L b d = (Inl (ValidationError v), d)"
    if h: "breaks_register_contract L b"
  proof (cases "registerSchema L b")
    case None
    from registerSchema_accepts [OF None] h show ?thesis
      by (auto simp: breaks_register_contract_def)
  next
    case (Some v)
    then show ?thesis by (simp add: post_register_def)
  qed
  have 2: "(list_ex (\<lambda>u. email u = em) (users d) \<longrightarrow>
               post_register L b d =
                 (Inl (Conflict ''User already exists with this email''), d)) \<and>
            (\<not> list_ex (\<lambda>u. email u = em) (users d) \<and>
             list_ex (\<lambda>u. username u = un) (users d) \<longrightarrow>
               post_register L b d = (Inl (Conflict ''Username already taken''), d))"
    if v: "registerSchema L b = None" and e: "reg_email b = Some em"
      and u: "reg_username b = Some un"
  proof -
    from registerSchema_accepts [OF v] obtain pw where p: "reg_password b = Some pw"
      by blast
    have fe: "findUserByEmail d em \<noteq> None \<longleftrightarrow> list_ex (\<lambda>u. email u = em) (users d)"
      unfolding findUserByEmail_def find_Some_list_ex by (rule active_lookup [OF assms])
    have fu: "findUserByUsername d un \<noteq> None \<longleftrightarrow> list_ex (\<lambda>u. username u = un) (users d)"
      unfolding findUserByUsername_def find_Some_list_ex by (rule active_lookup [OF assms])
    show ?thesis
      using fe fu by (simp add: post_register_def v e u p)
  qed
  from 1 2 show ?thesis by blast
qed

theorem register_failures_witness:
  "list_all is_active (users alice_db) \<and>
   registerSchema test_deps (registration ''bob'' ''alice@example.com'' ''hunter22'') = None \<and>
   list_ex (\<lambda>u. email u = ''alice@example.com'') (users alice_db) \<and>
   post_register test_deps (registration ''bob'' ''alice@example.com'' ''hunter22'') alice_db =
     (Inl (Conflict ''User already exists with this email''), alice_db) \<and>
   breaks_register_contract test_deps (registration ''al'' ''alice@example.com'' ''hunter22'') \<and>
   post_register test_deps (registration ''al'' ''alice@example.com'' ''hunter22'') alice_db =
     (Inl (ValidationError (''username'', StringMin)), alice_db) \<and>
   registerSchema test_deps (registration ''alice'' ''bob@example.com'' ''hunter22'') = None \<and>
   \<not> list_ex (\<lambda>u. email u = ''bob@example.com'') (users alice_db) \<and>
   list_ex (\<lambda>u. username u = ''alice'') (users alice_db) \<and>
   post_register test_deps (registration ''alice'' ''bob@example.com'' ''hunter22'') alice_db =
     (Inl (Conflict ''Username already taken''), alice_db)"
proof -
  let ?a = "registration ''alice'' ''bob@example.com'' ''hunter22''"
  let ?b = "registration ''bob'' ''alice@example.com'' ''hunter22''"
  let ?c = "registration ''al'' ''alice@example.com'' ''hunter22''"
  have act: "list_all is_active (users alice_db)"
    unfolding alice_db_def
    using reachable_users_active
      [of test_deps "[PostRegister (registration ''alice'' ''alice@example.com'' ''secret1'')]"
        doubles]
    by simp
  have va: "registerSchema test_deps ?a = None" by (simp add: auth_simps)
  have fa: "reg_email ?a = Some ''bob@example.com''" "reg_username ?a = Some ''alice''"
    by (simp_all add: registration_def)
  have xa: "\<not> list_ex (\<lambda>u. email u = ''bob@example.com'') (users alice_db)"
    "list_ex (\<lambda>u. username u = ''alice'') (users alice_db)"
    by (simp_all add: alice_db_eq)
  from register_failures [OF act, of test_deps ?a "''bob@example.com''" "''alice''"] va fa xa
  have 3: "post_register test_deps ?a alice_db =
     (Inl (Conflict ''Username already taken''), alice_db)" by blast
  have v: "registerSchema test_deps ?b = None" by (simp add: auth_simps)
  have f: "reg_email ?b = Some ''alice@example.com''" "reg_username ?b = Some ''bob''"
    by (simp_all add: registration_def)
  have x: "list_ex (\<lambda>u. email u = ''alice@example.com'') (users alice_db)"
    by (simp add: alice_db_eq)
  have h: "breaks_register_contract test_deps ?c"
    by (simp add: breaks_register_contract_def registration_def)
  have s: "registerSchema test_deps ?c = Some (''username'', StringMin)"
    by (simp add: auth_simps)
  from register_failures [OF act, of test_deps ?b "''alice@example.com''" "''bob''"] v f x
  have 1: "post_register test_deps ?b alice_db =
     (Inl (Conflict ''User already exists with this email''), alice_db)" by blast
  from register_failures [OF act, of test_deps ?c] h
  have "\<exists>v. post_register test_deps ?c alice_db = (Inl (ValidationError v), alice_db)"
    by blast
  then have 2: "post_register test_deps ?c alice_db =
     (Inl (ValidationError (''username'', StringMin)), alice_db)"
    by (simp add: post_register_def s)
  from act v x 1 h 2 va xa 3 show ?thesis by blast
qed

section \<open>C9: failed logins\<close>

text \<open>
  C9. Take two logins that pass the schema: one with an e-mail address that the lookup
  does not find, one with the address of a user and a password that does not match the
  stored hash. Both are answered with \<open>Unauthorized\<close> (401) and the same message,
  "Invalid credentials", and neither changes the store.
\<close>

theorem login_failures_indistinguishable:
  assumes "loginSchema L b1 = None" and "loginSchema L b2 = None"
    and "login_email b1 = Some e1" and "findUserByEmail d1 e1 = None"
    and "login_email b2 = Some e2" and "findUserByEmail d2 e2 = Some u"
    and "login_password b2 = Some pw" and "\<not> bcrypt_compare L pw (password_hash u)"
  shows "post_login L now1 b1 d1 = (Inl (Unauthorized ''Invalid credentials''), d1) \<and>
         post_login L now2 b2 d2 = (Inl (Unauthorized ''Invalid credentials''), d2) \<and>
         fst (post_login L now1 b1 d1) = fst (post_login L now2 b2 d2) \<and>
         status_code (Unauthorized ''Invalid credentials'') = 401"
proof -
  from assms(1) obtain p1 where p1: "login_password b1 = Some p1"
    by (auto simp: loginSchema_def first_error_None required_None)
  have 1: "post_login L now1 b1 d1 = (Inl (Unauthorized ''Invalid credentials''), d1)"
    by (simp add: post_login_def assms(1,3,4) p1)
  have 2: "post_login L now2 b2 d2 = (Inl (Unauthorized ''Invalid credentials''), d2)"
    by (simp add: post_login_def assms(2,5,6,7,8))
  from 1 2 show ?thesis by simp
qed

theorem login_failures_indistinguishable_witness:
  "loginSchema test_deps (credentials ''nobody@example.com'' ''secret1'') = None \<and>
   loginSchema test_deps (credentials ''alice@example.com'' ''wrong'') = None \<and>
   findUserByEmail alice_db ''nobody@example.com'' = None \<and>
   map_option username (findUserByEmail alice_db ''alice@example.com'') = Some ''alice'' \<and>
   \<not> bcrypt_compare test_deps ''wrong'' ''$2a$secret1'' \<and>
   post_login test_deps 7 (credentials ''nobody@example.com'' ''secret1'') alice_db =
     (Inl (Unauthorized ''Invalid credentials''), alice_db) \<and>
   post_login test_deps 8 (credentials ''alice@example.com'' ''wrong'') alice_db =
     (Inl (Unauthorized ''Invalid credentials''), alice_db)"
proof -
  let ?b1 = "credentials ''nobody@example.com'' ''secret1''"
  let ?b2 = "credentials ''alice@example.com'' ''wrong''"
  let ?u = "\<lparr>u_id = 1, username = ''alice'', email = ''alice@example.com'',
          password_hash = ''$2a$secret1'', full_name = None, is_active = True,
          last_login = None\<rparr>"
  have v1: "loginSchema test_deps ?b1 = None" by (simp add: auth_simps)
  have v2: "loginSchema test_deps ?b2 = None" by (simp add: auth_simps)
  have e1: "login_email ?b1 = Some ''nobody@example.com''" by (simp add: credentials_def)
  have e2: "login_email ?b2 = Some ''alice@example.com''" by (simp add: credentials_def)
  have p2: "login_password ?b2 = Some ''wrong''" by (simp add: credentials_def)
  have f1: "findUserByEmail alice_db ''nobody@example.com'' = None"
    by (simp add: alice_db_eq findUserByEmail_def)
  have f2: "findUserByEmail alice_db ''alice@example.com'' = Some ?u"
    by (simp add: alice_db_eq findUserByEmail_def)
  have c: "\<not> bcrypt_compare test_deps ''wrong'' (password_hash ?u)"
    by (simp add: test_deps_def)
  have c': "\<not> bcrypt_compare test_deps ''wrong'' ''$2a$secret1''"
    by (simp add: test_deps_def)
  from login_failures_indistinguishable [OF v1 v2 e1 f1 e2 f2 p2 c, of 7 8] v1 v2 f1 f2 c'
  show ?thesis by simp
qed

end
